theory Spec2Isabelle
  imports Complex_Main "HOL-Library.AList" "HOL-Library.Log_Nat"
begin

section \<open>Data model\<close>

text \<open>
  The types of \<^verbatim>\<open>types/license.ts\<close> as the two services use them. JavaScript numbers
  are modelled as rationals (\<^typ>\<open>rat\<close>) where fractions occur (confidences, the
  compatibility risk score) and as integers where the code only adds integer constants;
  strings are \<^typ>\<open>string\<close>. Record fields keep the source's names; a field name
  that two records share gets a prefix in all but one of them.
\<close>

datatype LicenseCategory =
  PERMISSIVE | WEAK_COPYLEFT | COPYLEFT | PROPRIETARY | CUSTOM | UNKNOWN | PUBLIC_DOMAIN

datatype ObligationType =
  ATTRIBUTION | COPYLEFT_OBLIGATION | DISCLOSE_SOURCE | SAME_LICENSE | PATENT_GRANT
  | NO_COMMERCIAL_USE | SHARE_ALIKE | NOTICE_PRESERVATION

datatype LegalRiskLevel = VERY_LOW | LOW | MEDIUM | HIGH | VERY_HIGH | CRITICAL

datatype ObligationSeverity = SevLow | SevMedium | SevHigh | SevCritical

datatype ObligationScope = ScopeFile | ScopeComponent | ScopeProject | ScopeDistribution

datatype IssueType =
  missing_license | conflicting_licenses | deprecated_license | unrecognized_license

datatype Severity = warning | error | critical

datatype DetectionMethod = declared | file_analysis | heuristic | manual

text \<open>A thrown value: a JavaScript \<^verbatim>\<open>Error\<close> with its message, or anything else.\<close>

datatype exn = Error string | NonError

record Package =
  pkg_name :: string
  pkg_version :: string
  pkg_license :: "string option"
  pkg_path :: "string option"

record License =
  spdxId :: string
  name :: string
  category :: LicenseCategory
  obligations :: "ObligationType list"
  confidence :: rat
  deprecatedIds :: "string list option"
  fullText :: "string option"
  url :: "string option"

record LicenseObligation =
  obligationType :: ObligationType
  description :: string
  severity :: ObligationSeverity
  scope :: ObligationScope

record LicenseFile =
  path :: string
  file_license :: License
  file_confidence :: rat

record Issue =
  issue_type :: IssueType
  issue_severity :: Severity
  issue_description :: string

record Metadata =
  analyzedAt :: int
  scanDuration :: int

record LicenseAnalysis =
  package :: "string \<times> string"
  licenses :: "License list"
  primaryLicense :: "License option"
  detectionMethod :: DetectionMethod
  licenseFiles :: "LicenseFile list"
  copyrightStatements :: "string list"
  analysis_obligations :: "LicenseObligation list"
  riskLevel :: LegalRiskLevel
  issues :: "Issue list"
  metadata :: Metadata

text \<open>
  The collaborators of the detector that are not part of it. The license store
  (\<^verbatim>\<open>getLicenseDatabase().getLicense\<close>) maps an identifier to a record, to nothing, or
  throws; the file system maps a package root and a file name to the file's content, or
  to nothing when \<^verbatim>\<open>access\<close> or \<^verbatim>\<open>readFile\<close> rejects; the clock gives, for a
  package, the two readings of \<^verbatim>\<open>Date.now()\<close> and the \<^verbatim>\<open>new Date()\<close> of its
  analysis.
\<close>

type_synonym LicenseDb = "string \<Rightarrow> exn + License option"
type_synonym FileSystem = "string \<Rightarrow> string \<Rightarrow> string option"
type_synonym Clock = "Package \<Rightarrow> int \<times> int \<times> int"

section \<open>Strings\<close>

text \<open>
  The characters that \<^verbatim>\<open>\s\<close> and \<^verbatim>\<open>trim\<close> treat as white space, among the 8-bit
  characters: tab, line feed, vertical tab, form feed, carriage return, space and the
  no-break space.
\<close>

definition isSpace :: "char \<Rightarrow> bool" where
  "isSpace c = (of_char c \<in> {9, 10, 11, 12, 13, 32, 160 :: nat})"

definition upperCase :: "char \<Rightarrow> char" where
  "upperCase c =
     (let n = (of_char c :: nat) in if 97 \<le> n \<and> n \<le> 122 then char_of (n - 32) else c)"

definition lowerCase :: "char \<Rightarrow> char" where
  "lowerCase c =
     (let n = (of_char c :: nat) in if 65 \<le> n \<and> n \<le> 90 then char_of (n + 32) else c)"

definition trim :: "string \<Rightarrow> string" where
  "trim s = rev (dropWhile isSpace (rev (dropWhile isSpace s)))"

text \<open>\<^verbatim>\<open>xs.join(sep)\<close>.\<close>

fun join :: "string \<Rightarrow> string list \<Rightarrow> string" where
  "join sep [] = []"
| "join sep [x] = x"
| "join sep (x # y # ys) = x @ sep @ join sep (y # ys)"

text \<open>
  A value used as a condition: an optional string is truthy when it is present and not
  empty.
\<close>

fun truthy :: "string option \<Rightarrow> bool" where
  "truthy None = False"
| "truthy (Some s) = (s \<noteq> [])"

text \<open>
  \<open>keywordAt kw rest\<close>: \<open>rest\<close> starts with \<open>kw\<close> and white space follows, which is what
  is left of \<^verbatim>\<open>\s+OR\s+\<close> once the leading white space is consumed.
\<close>

definition keywordAt :: "string \<Rightarrow> string \<Rightarrow> bool" where
  "keywordAt kw rest =
     (take (length kw) rest = kw \<and>
      (case drop (length kw) rest of [] \<Rightarrow> False | d # _ \<Rightarrow> isSpace d))"

lemma length_dropWhile_drop_le:
  "length (dropWhile P (drop n (dropWhile Q xs))) \<le> length xs"
proof -
  have "length (dropWhile P (drop n (dropWhile Q xs))) \<le> length (drop n (dropWhile Q xs))"
    by (rule length_dropWhile_le)
  also have "\<dots> \<le> length (dropWhile Q xs)" by simp
  also have "\<dots> \<le> length xs" by (rule length_dropWhile_le)
  finally show ?thesis .
qed

text \<open>
  \<^verbatim>\<open>s.replace(/\s+KW\s+/gi, ' KW ')\<close> for an upper-case keyword \<open>kw\<close>. A match starts
  at a white-space character; the run of white space it starts is consumed greedily, so
  a match exists there exactly when the keyword (in any case) and more white space
  follow the run, and the search resumes after the match.
\<close>

function replaceKeyword :: "string \<Rightarrow> string \<Rightarrow> string" where
  "replaceKeyword kw [] = []"
| "replaceKeyword kw (c # cs) =
     (if isSpace c then
        (let rest = dropWhile isSpace cs in
         if keywordAt kw (map upperCase (take (Suc (length kw)) rest))
         then '' '' @ kw @ '' '' @ replaceKeyword kw (dropWhile isSpace (drop (length kw) rest))
         else (c # takeWhile isSpace cs) @ replaceKeyword kw rest)
      else c # replaceKeyword kw cs)"
  by pat_completeness auto
termination
  by (relation "measure (\<lambda>(kw, s). length s)")
     (auto simp: less_Suc_eq_le length_dropWhile_le length_dropWhile_drop_le)

text \<open>
  \<^verbatim>\<open>s.split(/\s+(?:OR|AND)\s+/)\<close>, case-sensitive; \<open>cur\<close> is the part being read.
\<close>

function splitExpression :: "string \<Rightarrow> string \<Rightarrow> string list" where
  "splitExpression [] cur = [cur]"
| "splitExpression (c # cs) cur =
     (if isSpace c then
        (let rest = dropWhile isSpace cs in
         if keywordAt ''OR'' rest
         then cur # splitExpression (dropWhile isSpace (drop 2 rest)) []
         else if keywordAt ''AND'' rest
         then cur # splitExpression (dropWhile isSpace (drop 3 rest)) []
         else splitExpression rest (cur @ c # takeWhile isSpace cs))
      else splitExpression cs (cur @ [c]))"
  by pat_completeness auto
termination
  by (relation "measure (\<lambda>(s, cur). length s)")
     (auto simp: less_Suc_eq_le length_dropWhile_le length_dropWhile_drop_le)

text \<open>\<^verbatim>\<open>s.replace(/\s+/g, ' ')\<close>: every run of white space becomes one space.\<close>

fun collapseWhitespace :: "string \<Rightarrow> string" where
  "collapseWhitespace [] = []"
| "collapseWhitespace [c] = [if isSpace c then CHR '' '' else c]"
| "collapseWhitespace (c # d # cs) =
     (if isSpace c then
        (if isSpace d then collapseWhitespace (d # cs)
         else CHR '' '' # collapseWhitespace (d # cs))
      else c # collapseWhitespace (d # cs))"

text \<open>
  The license fingerprints are alternatives of literals joined by \<^verbatim>\<open>.*\<close>, tested
  without regard to case on a text whose white space is already collapsed, so that it
  holds no line terminator and \<^verbatim>\<open>.\<close> matches every character of it. \<open>findAfter\<close>
  gives what follows the first occurrence of a literal; a sequence of literals matches
  when each one occurs after the one before it.
\<close>

fun findAfter :: "string \<Rightarrow> string \<Rightarrow> string option" where
  "findAfter needle [] = (if needle = [] then Some [] else None)"
| "findAfter needle (c # cs) =
     (if take (length needle) (c # cs) = needle then Some (drop (length needle) (c # cs))
      else findAfter needle cs)"

fun matchesSequence :: "string list \<Rightarrow> string \<Rightarrow> bool" where
  "matchesSequence [] text = True"
| "matchesSequence (lit # lits) text =
     (case findAfter lit text of None \<Rightarrow> False | Some rest \<Rightarrow> matchesSequence lits rest)"

definition regexTest :: "string list list \<Rightarrow> string \<Rightarrow> bool" where
  "regexTest alternatives text =
     list_ex (\<lambda>lits. matchesSequence (map (map lowerCase) lits) (map lowerCase text))
       alternatives"

section \<open>JavaScript numbers\<close>

text \<open>
  A JavaScript number is an IEEE 754 binary64 value: a finite one, given by the rational
  it stands for, or \<^verbatim>\<open>NaN\<close>, or one of the two infinities. The two zeros are not told
  apart; no operation below depends on the sign of a zero but \<^verbatim>\<open>0/0\<close> and \<^verbatim>\<open>-0/0\<close>,
  which are both \<^verbatim>\<open>NaN\<close>.
\<close>

datatype number = Finite rat | NaN | PosInfinity | NegInfinity

text \<open>
  For \<open>x > 0\<close>, \<open>binade x\<close> is the exponent \<open>e\<close> with \<open>2\<^sup>e \<le> x < 2\<^sup>e\<^sup>+\<^sup>1\<close>: it is the
  difference of the bit lengths of numerator and denominator, or one less.
\<close>

definition binade :: "rat \<Rightarrow> int" where
  "binade x =
     (case quotient_of x of
        (p, q) \<Rightarrow> (let e = bitlen p - bitlen q in if 2 powi e \<le> x then e else e - 1))"

text \<open>The integer nearest to \<open>m\<close>, the even one of the two when \<open>m\<close> is half-way.\<close>

definition roundEven :: "rat \<Rightarrow> int" where
  "roundEven m =
     (let f = \<lfloor>m\<rfloor>; d = m - of_int f
      in if d < 1/2 then f else if d > 1/2 then f + 1 else if even f then f else f + 1)"

text \<open>
  The binary64 value of an exact result, rounded to nearest, ties to even: 53 significant
  bits, the exponent at least \<open>-1022\<close> (below it the values are subnormal and spaced by
  \<open>2\<^sup>-\<^sup>1\<^sup>0\<^sup>7\<^sup>4\<close>), and an infinity when the rounded value reaches \<open>2\<^sup>1\<^sup>0\<^sup>2\<^sup>4\<close>.
\<close>

definition roundDouble :: "rat \<Rightarrow> number" where
  "roundDouble x =
     (if x = 0 then Finite 0
      else
        let e = max (binade \<bar>x\<bar>) (- 1022);
            ulp = 2 powi (e - 52);
            r = of_int (roundEven (x / ulp)) * ulp
        in if \<bar>r\<bar> \<ge> 2 powi 1024 then (if x > 0 then PosInfinity else NegInfinity)
           else Finite r)"

text \<open>\<^verbatim>\<open>a + b\<close>.\<close>

fun numAdd :: "number \<Rightarrow> number \<Rightarrow> number" where
  "numAdd (Finite a) (Finite b) = roundDouble (a + b)"
| "numAdd NaN _ = NaN"
| "numAdd _ NaN = NaN"
| "numAdd PosInfinity NegInfinity = NaN"
| "numAdd NegInfinity PosInfinity = NaN"
| "numAdd PosInfinity _ = PosInfinity"
| "numAdd _ PosInfinity = PosInfinity"
| "numAdd NegInfinity _ = NegInfinity"
| "numAdd _ NegInfinity = NegInfinity"

text \<open>
  \<^verbatim>\<open>a / n\<close> for the length \<open>n\<close> of an array, which is a non-negative integer below
  \<open>2\<^sup>3\<^sup>2\<close> and so a number without rounding.
\<close>

fun numDivide :: "number \<Rightarrow> nat \<Rightarrow> number" where
  "numDivide NaN n = NaN"
| "numDivide PosInfinity n = PosInfinity"
| "numDivide NegInfinity n = NegInfinity"
| "numDivide (Finite a) n =
     (if n = 0 then (if a > 0 then PosInfinity else if a < 0 then NegInfinity else NaN)
      else roundDouble (a / of_nat n))"

text \<open>
  \<^verbatim>\<open>Math.round(x)\<close>: the nearest integer, the larger one of the two when \<open>x\<close> is
  half-way; the result is computed without rounding error.
\<close>

fun Math_round :: "number \<Rightarrow> number" where
  "Math_round (Finite x) = Finite (of_int \<lfloor>x + 1/2\<rfloor>)"
| "Math_round NaN = NaN"
| "Math_round PosInfinity = PosInfinity"
| "Math_round NegInfinity = NegInfinity"

text \<open>\<^verbatim>\<open>Math.min(x, y)\<close> for a finite \<open>y\<close>.\<close>

fun Math_min :: "number \<Rightarrow> rat \<Rightarrow> number" where
  "Math_min (Finite x) y = Finite (min x y)"
| "Math_min NaN y = NaN"
| "Math_min PosInfinity y = Finite y"
| "Math_min NegInfinity y = NegInfinity"

text \<open>\<^verbatim>\<open>x >= y\<close> for a finite \<open>y\<close>.\<close>

fun numGe :: "number \<Rightarrow> rat \<Rightarrow> bool" where
  "numGe (Finite x) y = (x \<ge> y)"
| "numGe NaN y = False"
| "numGe PosInfinity y = True"
| "numGe NegInfinity y = False"

section \<open>License detector\<close>

definition LICENSE_FILE_PATTERNS :: "string list" where
  "LICENSE_FILE_PATTERNS =
     [''LICENSE'', ''LICENSE.txt'', ''LICENSE.md'', ''LICENCE'', ''LICENCE.txt'', ''LICENCE.md'',
      ''COPYING'', ''COPYING.txt'', ''COPYRIGHT'', ''COPYRIGHT.txt'', ''NOTICE'', ''NOTICE.txt'']"

text \<open>
  \<^verbatim>\<open>LICENSE_TEXT_PATTERNS\<close>: the pattern (its alternatives, each a list of literals
  joined by \<^verbatim>\<open>.*\<close>), the identifier and the confidence.
\<close>

definition LICENSE_TEXT_PATTERNS :: "(string list list \<times> string \<times> rat) list" where
  "LICENSE_TEXT_PATTERNS =
     [([[''MIT License''], [''Permission is hereby granted, free of charge'']], ''MIT'', 9/10),
      ([[''Apache License'', ''Version 2.0'']], ''Apache-2.0'', 9/10),
      ([[''GNU GENERAL PUBLIC LICENSE'', ''Version 3'']], ''GPL-3.0-only'', 9/10),
      ([[''GNU GENERAL PUBLIC LICENSE'', ''Version 2'']], ''GPL-2.0-only'', 9/10),
      ([[''GNU LESSER GENERAL PUBLIC LICENSE'', ''Version 3'']], ''LGPL-3.0-only'', 9/10),
      ([[''GNU LESSER GENERAL PUBLIC LICENSE'', ''Version 2.1'']], ''LGPL-2.1-only'', 9/10),
      ([[''Mozilla Public License'', ''Version 2.0'']], ''MPL-2.0'', 9/10),
      ([[''BSD'', ''3'', ''Clause''],
        [''Redistribution and use in source and binary forms'',
         ''with or without modification'']], ''BSD-3-Clause'', 8/10),
      ([[''BSD'', ''2'', ''Clause'']], ''BSD-2-Clause'', 8/10),
      ([[''ISC License''], [''Permission to use, copy, modify'', ''is hereby granted'']],
       ''ISC'', 8/10),
      ([[''Creative Commons Zero'', ''Universal''], [''CC0'']], ''CC0-1.0'', 8/10),
      ([[''This is free and unencumbered software released into the public domain'']],
       ''Unlicense'', 9/10)]"

text \<open>
  The loop of \<^verbatim>\<open>detectDeclaredLicense\<close> over the parts of the expression: the first
  part that the store knows is returned with confidence 0.8.
\<close>

fun firstResolvable :: "LicenseDb \<Rightarrow> string list \<Rightarrow> exn + License option" where
  "firstResolvable db [] = Inr None"
| "firstResolvable db (part # parts) =
     (case db (trim part) of
        Inl e \<Rightarrow> Inl e
      | Inr (Some partLicense) \<Rightarrow> Inr (Some (partLicense\<lparr>confidence := 8/10\<rparr>))
      | Inr None \<Rightarrow> firstResolvable db parts)"

text \<open>
  \<^verbatim>\<open>detectDeclaredLicense(pkg)\<close>. The spread \<^verbatim>\<open>{ ...license, confidence: 1.0 }\<close> is a
  new record; a fault of the store is thrown on.
\<close>

definition detectDeclaredLicense :: "LicenseDb \<Rightarrow> Package \<Rightarrow> exn + License option" where
  "detectDeclaredLicense db pkg =
     (case pkg_license pkg of
        None \<Rightarrow> Inr None
      | Some declaredText \<Rightarrow>
          if declaredText = [] then Inr None
          else
            (let licenseExpression = trim declaredText in
             (case db licenseExpression of
                Inl e \<Rightarrow> Inl e
              | Inr (Some license) \<Rightarrow> Inr (Some (license\<lparr>confidence := 1\<rparr>))
              | Inr None \<Rightarrow>
                  (let cleanedExpression =
                         filter (\<lambda>c. c \<noteq> CHR ''('' \<and> c \<noteq> CHR '')'')
                           (replaceKeyword ''AND'' (replaceKeyword ''OR'' licenseExpression));
                       parts = splitExpression cleanedExpression []
                   in firstResolvable db parts))))"

text \<open>
  \<^verbatim>\<open>analyzeLicenseText(content)\<close>: the first pattern that matches and whose license the
  store knows.
\<close>

fun analyzeLicenseTextLoop ::
  "LicenseDb \<Rightarrow> string \<Rightarrow> (string list list \<times> string \<times> rat) list
   \<Rightarrow> exn + (License \<times> rat) option" where
  "analyzeLicenseTextLoop db normalizedContent [] = Inr None"
| "analyzeLicenseTextLoop db normalizedContent ((pat, patId, patConfidence) # patterns) =
     (if regexTest pat normalizedContent then
        (case db patId of
           Inl e \<Rightarrow> Inl e
         | Inr (Some license) \<Rightarrow>
             Inr (Some (license\<lparr>confidence := patConfidence\<rparr>, patConfidence))
         | Inr None \<Rightarrow> analyzeLicenseTextLoop db normalizedContent patterns)
      else analyzeLicenseTextLoop db normalizedContent patterns)"

definition analyzeLicenseText :: "LicenseDb \<Rightarrow> string \<Rightarrow> exn + (License \<times> rat) option" where
  "analyzeLicenseText db content =
     (let normalizedContent = trim (collapseWhitespace content)
      in analyzeLicenseTextLoop db normalizedContent LICENSE_TEXT_PATTERNS)"

text \<open>
  \<^verbatim>\<open>analyzeLicenseFiles(pkg, options)\<close>. The \<^verbatim>\<open>try\<close> block covers the file access
  and the text analysis, so a missing file and a fault of the store inside
  \<^verbatim>\<open>analyzeLicenseText\<close> both leave the list as it is.
\<close>

definition analyzeLicenseFiles :: "LicenseDb \<Rightarrow> FileSystem \<Rightarrow> Package \<Rightarrow> LicenseFile list" where
  "analyzeLicenseFiles db fs pkg =
     (if \<not> truthy (pkg_path pkg) then []
      else
        fold (\<lambda>pat licenseFiles.
                case fs (the (pkg_path pkg)) pat of
                  None \<Rightarrow> licenseFiles
                | Some content \<Rightarrow>
                    (case analyzeLicenseText db content of
                       Inr (Some detectedLicense) \<Rightarrow>
                         licenseFiles @
                           [\<lparr>path = pat, file_license = fst detectedLicense,
                             file_confidence = snd detectedLicense\<rparr>]
                     | Inr None \<Rightarrow> licenseFiles
                     | Inl e \<Rightarrow> licenseFiles))
          LICENSE_FILE_PATTERNS [])"

text \<open>
  \<^verbatim>\<open>extractCopyrightStatements(pkg, options)\<close>. \<open>copyrightMatches content\<close> stands for
  the successive matches \<^verbatim>\<open>match[0]\<close> of \<^verbatim>\<open>copyrightPattern.exec(content)\<close>, which
  the regular-expression engine computes.
\<close>

definition extractCopyrightStatements ::
  "(string \<Rightarrow> string list) \<Rightarrow> FileSystem \<Rightarrow> Package \<Rightarrow> string list" where
  "extractCopyrightStatements copyrightMatches fs pkg =
     (if \<not> truthy (pkg_path pkg) then []
      else
        fold (\<lambda>pat copyrightStatements.
                case fs (the (pkg_path pkg)) pat of
                  None \<Rightarrow> copyrightStatements
                | Some content \<Rightarrow>
                    fold (\<lambda>m statements.
                            let statement = trim m in
                            if statement \<noteq> [] \<and> statement \<notin> set statements
                            then statements @ [statement] else statements)
                      (copyrightMatches content) copyrightStatements)
          LICENSE_FILE_PATTERNS [])"

text \<open>\<^verbatim>\<open>x || 0\<close> on a number.\<close>

definition orZero :: "rat \<Rightarrow> rat" where
  "orZero x = (if x = 0 then 0 else x)"

text \<open>
  In the definitions below a parameter that shares its name with a field of a record is
  shortened: \<open>lics\<close> for \<^verbatim>\<open>licenses\<close>, \<open>files\<close> for \<^verbatim>\<open>licenseFiles\<close>, \<open>obls\<close>
  for \<^verbatim>\<open>obligations\<close>.
\<close>

text \<open>
  \<^verbatim>\<open>consolidateLicenses(declaredLicense, licenseFiles)\<close>. The \<^verbatim>\<open>Map\<close> keeps its keys
  in insertion order and \<^verbatim>\<open>set\<close> on a key it has keeps the key's place, which is
  \<open>AList.update\<close> on an association list.
\<close>

definition consolidateLicenses :: "License option \<Rightarrow> LicenseFile list \<Rightarrow> License list" where
  "consolidateLicenses declaredLicense files =
     (let licenseMap = (case declaredLicense of
                          None \<Rightarrow> []
                        | Some d \<Rightarrow> AList.update (spdxId d) d []);
          licenseMap =
            fold (\<lambda>fileInfo licenseMap.
                    case map_of licenseMap (spdxId (file_license fileInfo)) of
                      None \<Rightarrow>
                        AList.update (spdxId (file_license fileInfo)) (file_license fileInfo)
                          licenseMap
                    | Some existing \<Rightarrow>
                        if file_confidence fileInfo > orZero (confidence existing)
                        then AList.update (spdxId (file_license fileInfo))
                               (file_license fileInfo) licenseMap
                        else licenseMap)
              files licenseMap
      in map snd licenseMap)"

text \<open>
  \<^verbatim>\<open>xs.sort((a, b) => (b.confidence || 0) - (a.confidence || 0))\<close>: a stable sort by
  descending confidence.
\<close>

definition sortByConfidence :: "License list \<Rightarrow> License list" where
  "sortByConfidence xs = sort_key (\<lambda>l. - orZero (confidence l)) xs"

text \<open>
  \<^verbatim>\<open>determinePrimaryLicense(licenses, declaredLicense)\<close>. \<^verbatim>\<open>Array.prototype.sort\<close>
  sorts in place: on the last branch the caller's array \<^verbatim>\<open>licenses\<close> is reordered, so
  the model returns the array as the call leaves it beside the result. \<^verbatim>\<open>filter\<close>
  makes a new array, so the branch before it leaves \<^verbatim>\<open>licenses\<close> alone.
\<close>

definition determinePrimaryLicense ::
  "License list \<Rightarrow> License option \<Rightarrow> License option \<times> License list" where
  "determinePrimaryLicense lics declaredLicense =
     (if length lics = 0 then (None, lics)
      else if length lics = 1 then (Some (lics ! 0), lics)
      else
        case (case declaredLicense of
                None \<Rightarrow> None
              | Some d \<Rightarrow> find (\<lambda>l. spdxId l = spdxId d) lics) of
          Some found \<Rightarrow> (Some found, lics)
        | None \<Rightarrow>
            let permissive = filter (\<lambda>l. category l = PERMISSIVE) lics in
            if length permissive > 0 then (Some (sortByConfidence permissive ! 0), lics)
            else let sorted = sortByConfidence lics in (Some (sorted ! 0), sorted))"

fun createObligation :: "ObligationType \<Rightarrow> License \<Rightarrow> LicenseObligation" where
  "createObligation ATTRIBUTION _ =
     \<lparr>obligationType = ATTRIBUTION,
      description = ''Must include attribution to original authors'',
      severity = SevMedium, scope = ScopeDistribution\<rparr>"
| "createObligation COPYLEFT_OBLIGATION _ =
     \<lparr>obligationType = COPYLEFT_OBLIGATION,
      description = ''Must release derivative works under same license'',
      severity = SevHigh, scope = ScopeProject\<rparr>"
| "createObligation DISCLOSE_SOURCE _ =
     \<lparr>obligationType = DISCLOSE_SOURCE,
      description = ''Must make source code available'',
      severity = SevHigh, scope = ScopeDistribution\<rparr>"
| "createObligation SAME_LICENSE _ =
     \<lparr>obligationType = SAME_LICENSE,
      description = ''Must use same license for derivative works'',
      severity = SevHigh, scope = ScopeProject\<rparr>"
| "createObligation PATENT_GRANT _ =
     \<lparr>obligationType = PATENT_GRANT,
      description = ''Includes patent grant and termination clauses'',
      severity = SevMedium, scope = ScopeComponent\<rparr>"
| "createObligation NO_COMMERCIAL_USE _ =
     \<lparr>obligationType = NO_COMMERCIAL_USE,
      description = ''Prohibits commercial use'',
      severity = SevCritical, scope = ScopeProject\<rparr>"
| "createObligation SHARE_ALIKE _ =
     \<lparr>obligationType = SHARE_ALIKE,
      description = ''Must share adaptations under same license'',
      severity = SevHigh, scope = ScopeProject\<rparr>"
| "createObligation NOTICE_PRESERVATION _ =
     \<lparr>obligationType = NOTICE_PRESERVATION,
      description = ''Must preserve copyright and license notices'',
      severity = SevMedium, scope = ScopeFile\<rparr>"

text \<open>
  \<^verbatim>\<open>calculateObligations(licenses)\<close>: a \<^verbatim>\<open>Map\<close> from obligation type to its record,
  in insertion order; a type that is already a key is skipped.
\<close>

definition calculateObligations :: "License list \<Rightarrow> LicenseObligation list" where
  "calculateObligations lics =
     map snd
       (fold (\<lambda>license obligationMap.
                fold (\<lambda>obType obligationMap.
                        if map_of obligationMap obType = None
                        then obligationMap @ [(obType, createObligation obType license)]
                        else obligationMap)
                  (obligations license) obligationMap)
          lics [])"

text \<open>The \<^verbatim>\<open>switch (license.category)\<close> of \<^verbatim>\<open>assessLegalRisk\<close>.\<close>

fun categoryRisk :: "LicenseCategory \<Rightarrow> int" where
  "categoryRisk PERMISSIVE = 1"
| "categoryRisk WEAK_COPYLEFT = 3"
| "categoryRisk COPYLEFT = 5"
| "categoryRisk PROPRIETARY = 10"
| "categoryRisk CUSTOM = 7"
| "categoryRisk UNKNOWN = 8"
| "categoryRisk PUBLIC_DOMAIN = 0"

text \<open>The \<^verbatim>\<open>switch (obligation.severity)\<close> of \<^verbatim>\<open>assessLegalRisk\<close>.\<close>

fun severityRisk :: "ObligationSeverity \<Rightarrow> int" where
  "severityRisk SevCritical = 10"
| "severityRisk SevHigh = 5"
| "severityRisk SevMedium = 2"
| "severityRisk SevLow = 1"

text \<open>The final \<^verbatim>\<open>if\<close> chain of \<^verbatim>\<open>assessLegalRisk\<close> ("Convert score to risk level").\<close>

definition scoreToRiskLevel :: "int \<Rightarrow> LegalRiskLevel" where
  "scoreToRiskLevel riskScore =
     (if riskScore \<ge> 20 then CRITICAL
      else if riskScore \<ge> 15 then VERY_HIGH
      else if riskScore \<ge> 10 then HIGH
      else if riskScore \<ge> 5 then MEDIUM
      else if riskScore \<ge> 2 then LOW
      else VERY_LOW)"

text \<open>
  \<^verbatim>\<open>assessLegalRisk(licenses, obligations)\<close> of the detector: \<^verbatim>\<open>riskScore\<close> starts at
  0, the first loop adds the category weight of every license, the second the severity
  weight of every obligation; the loops are folds over the accumulator.
\<close>

definition assessLegalRisk :: "License list \<Rightarrow> LicenseObligation list \<Rightarrow> LegalRiskLevel" where
  "assessLegalRisk lics obls =
     (let riskScore = fold (\<lambda>license s. s + categoryRisk (category license)) lics 0;
          riskScore = fold (\<lambda>obligation s. s + severityRisk (severity obligation)) obls riskScore
      in scoreToRiskLevel riskScore)"

text \<open>The total order \<open>VERY_LOW < LOW < MEDIUM < HIGH < VERY_HIGH < CRITICAL\<close> as a rank.\<close>

fun riskRank :: "LegalRiskLevel \<Rightarrow> nat" where
  "riskRank VERY_LOW = 0"
| "riskRank LOW = 1"
| "riskRank MEDIUM = 2"
| "riskRank HIGH = 3"
| "riskRank VERY_HIGH = 4"
| "riskRank CRITICAL = 5"

text \<open>\<^verbatim>\<open>hasIncompatibleLicenses(licenses)\<close>.\<close>

definition hasIncompatibleLicenses :: "License list \<Rightarrow> bool" where
  "hasIncompatibleLicenses lics =
     (let categories = map category lics;
          hasProprietary = (PROPRIETARY \<in> set categories)
      in if hasProprietary \<and> length lics > 1 then True
         else
           let copyleftCount = length (filter (\<lambda>c. c = COPYLEFT) categories)
           in if copyleftCount > 1 then True else False)"

text \<open>
  \<^verbatim>\<open>detectIssues(pkg, licenses, declaredLicense, licenseFiles)\<close>: four independent
  checks, each pushing onto \<^verbatim>\<open>issues\<close>.
\<close>

definition detectIssues ::
  "Package \<Rightarrow> License list \<Rightarrow> License option \<Rightarrow> LicenseFile list \<Rightarrow> Issue list" where
  "detectIssues pkg lics declaredLicense files =
     (let issues = [];
          issues = (if length lics = 0
                    then issues @ [\<lparr>issue_type = missing_license, issue_severity = error,
                                    issue_description = ''No license detected in package''\<rparr>]
                    else issues);
          issues = (if length lics > 1 \<and> hasIncompatibleLicenses lics
                    then issues @ [\<lparr>issue_type = conflicting_licenses,
                                    issue_severity = critical,
                                    issue_description =
                                      ''Potentially incompatible licenses: '' @
                                      join '', '' (map spdxId lics)\<rparr>]
                    else issues);
          issues = fold (\<lambda>license issues.
                           if (case deprecatedIds license of
                                 None \<Rightarrow> False | Some ids \<Rightarrow> length ids > 0)
                           then issues @ [\<lparr>issue_type = deprecated_license,
                                           issue_severity = warning,
                                           issue_description =
                                             ''License '' @ spdxId license @
                                             '' has deprecated identifiers''\<rparr>]
                           else issues)
                     lics issues;
          issues = (if truthy (pkg_license pkg) \<and> declaredLicense = None
                    then issues @ [\<lparr>issue_type = unrecognized_license,
                                    issue_severity = warning,
                                    issue_description =
                                      ''Unrecognized license identifier: '' @
                                      the (pkg_license pkg)\<rparr>]
                    else issues)
      in issues)"

text \<open>\<^verbatim>\<open>determineDetectionMethod(declaredLicense, licenseFiles)\<close>.\<close>

definition determineDetectionMethod :: "License option \<Rightarrow> LicenseFile list \<Rightarrow> DetectionMethod" where
  "determineDetectionMethod declaredLicense files =
     (if declaredLicense \<noteq> None \<and> length files > 0 then declared
      else if length files > 0 then file_analysis
      else if declaredLicense \<noteq> None then heuristic
      else manual)"

text \<open>
  \<^verbatim>\<open>detectLicense(pkg, options)\<close>. Only the lookup of the declared license can throw
  inside the \<^verbatim>\<open>try\<close> block; the \<^verbatim>\<open>catch\<close> wraps what was thrown into a new
  \<^verbatim>\<open>Error\<close> that names the package. After \<^verbatim>\<open>determinePrimaryLicense\<close> the
  array \<^verbatim>\<open>licenses\<close> is the one that call may have sorted (\<open>licenses'\<close>), in every
  later use; the locals that share a name with a field of the analysis are primed.
\<close>

definition detectLicense ::
  "LicenseDb \<Rightarrow> FileSystem \<Rightarrow> (string \<Rightarrow> string list) \<Rightarrow> Clock \<Rightarrow> Package
   \<Rightarrow> exn + LicenseAnalysis" where
  "detectLicense db fs copyrightMatches clock pkg =
     (case clock pkg of (startTime, endTime, now) \<Rightarrow>
      (case detectDeclaredLicense db pkg of
        Inl e \<Rightarrow>
          Inl (Error (''License detection failed for '' @ pkg_name pkg @ '': '' @
                      (case e of Error message \<Rightarrow> message | NonError \<Rightarrow> ''Unknown error'')))
      | Inr declaredLicense \<Rightarrow>
          let licenseFiles' = analyzeLicenseFiles db fs pkg;
              copyrightStatements' = extractCopyrightStatements copyrightMatches fs pkg;
              consolidated = consolidateLicenses declaredLicense licenseFiles';
              (primaryLicense', licenses') = determinePrimaryLicense consolidated declaredLicense;
              obligations' = calculateObligations licenses';
              riskLevel' = assessLegalRisk licenses' obligations';
              issues' = detectIssues pkg licenses' declaredLicense licenseFiles';
              scanDuration' = endTime - startTime
          in Inr \<lparr>package = (pkg_name pkg, pkg_version pkg),
                  licenses = licenses',
                  primaryLicense = primaryLicense',
                  detectionMethod = determineDetectionMethod declaredLicense licenseFiles',
                  licenseFiles = licenseFiles',
                  copyrightStatements = copyrightStatements',
                  analysis_obligations = obligations',
                  riskLevel = riskLevel',
                  issues = issues',
                  metadata = \<lparr>analyzedAt = now, scanDuration = scanDuration'\<rparr>\<rparr>))"

section \<open>License intelligence service\<close>

record CategoryRule =
  rule_category :: LicenseCategory
  action :: string

record LicensePolicy =
  policy_name :: string
  prohibitedLicenses :: "string list"
  reviewRequiredLicenses :: "string list"
  allowedLicenses :: "string list"
  categoryRules :: "CategoryRule list"
  maximumRiskLevel :: LegalRiskLevel

record Violation =
  v_package :: string
  v_license :: string
  violation :: string
  v_severity :: Severity

record PolicyResult =
  compliant :: bool
  violations :: "Violation list"

text \<open>
  The report of the compatibility engine, as far as the service reads it; the type of a
  conflict is left open.
\<close>

record 'c CompatibilityReport =
  conflicts :: "'c list"
  overallCompatibility :: string
  summary_riskScore :: number

text \<open>
  The legal-risk report, restricted to the two fields that are computed from the risk
  score; the others (risk factors, jurisdiction and patent risks, compliance
  requirements, legal review) are lists derived from the analyses by themselves.
\<close>

record LegalRiskReport =
  overallRisk :: LegalRiskLevel
  riskScore :: number


text \<open>
  \<^verbatim>\<open>analyzeLicense(pkg, options)\<close>: the detector's result; the \<^verbatim>\<open>catch\<close> logs and
  throws the same error on. The detector is the parameter \<open>detect\<close>.
\<close>

definition analyzeLicense ::
  "(Package \<Rightarrow> exn + LicenseAnalysis) \<Rightarrow> Package \<Rightarrow> exn + LicenseAnalysis" where
  "analyzeLicense detect pkg = (case detect pkg of Inl e \<Rightarrow> Inl e | Inr analysis \<Rightarrow> Inr analysis)"

text \<open>\<^verbatim>\<open>xs.slice(i, j)\<close> for \<open>i \<le> j\<close>.\<close>

definition slice :: "'a list \<Rightarrow> nat \<Rightarrow> nat \<Rightarrow> 'a list" where
  "slice xs i j = take (j - i) (drop i xs)"

text \<open>
  What the loop of \<^verbatim>\<open>analyzeLicenses\<close> does besides computing its result, in the
  order in which it does it: \<open>Started pkg\<close> is the call \<^verbatim>\<open>this.analyzeLicense(pkg, options)\<close>
  that \<^verbatim>\<open>batch.map\<close> makes, which starts the detection of the package;
  \<open>AllSettled results\<close> is the return of \<^verbatim>\<open>await Promise.allSettled(batchPromises)\<close>,
  when every detection of the batch has settled, with the results in the order of the
  batch.
\<close>

datatype event = Started Package | AllSettled "(exn + LicenseAnalysis) list"

text \<open>
  The \<^verbatim>\<open>for\<close> loop of \<^verbatim>\<open>analyzeLicenses\<close>, with \<^verbatim>\<open>batchSize = 10\<close>, on the pair of the
  array \<^verbatim>\<open>analyses\<close> and the events so far. One round takes the slice
  \<^verbatim>\<open>packages.slice(i, i + 10)\<close>, calls \<^verbatim>\<open>analyzeLicense\<close> on each package of it, waits
  for all of them to settle and pushes the fulfilled values; the next round starts after
  that.
\<close>

function analyzeLicensesLoop ::
  "(Package \<Rightarrow> exn + LicenseAnalysis) \<Rightarrow> Package list \<Rightarrow> nat
   \<Rightarrow> LicenseAnalysis list \<times> event list \<Rightarrow> LicenseAnalysis list \<times> event list" where
  "analyzeLicensesLoop detect packages i (analyses, events) =
     (if i < length packages then
        (let batch = slice packages i (i + 10);
             events = events @ map Started batch;
             batchResults = map (analyzeLicense detect) batch;
             events = events @ [AllSettled batchResults];
             analyses = fold (\<lambda>result analyses.
                                case result of
                                  Inr v \<Rightarrow> analyses @ [v]
                                | Inl reason \<Rightarrow> analyses)
                          batchResults analyses
         in analyzeLicensesLoop detect packages (i + 10) (analyses, events))
      else (analyses, events))"
  by pat_completeness auto
termination
  by (relation "measure (\<lambda>(detect, packages, i, state). length packages - i)") auto

text \<open>
  \<^verbatim>\<open>analyzeLicenses(packages, options)\<close>. Nothing in the \<^verbatim>\<open>try\<close> block throws: a
  rejected detection is a settled result of its batch. \<open>analyzeLicensesEvents\<close> is the
  sequence of events of the same call.
\<close>

definition analyzeLicenses ::
  "(Package \<Rightarrow> exn + LicenseAnalysis) \<Rightarrow> Package list \<Rightarrow> exn + LicenseAnalysis list" where
  "analyzeLicenses detect packages = Inr (fst (analyzeLicensesLoop detect packages 0 ([], [])))"

definition analyzeLicensesEvents ::
  "(Package \<Rightarrow> exn + LicenseAnalysis) \<Rightarrow> Package list \<Rightarrow> event list" where
  "analyzeLicensesEvents detect packages = snd (analyzeLicensesLoop detect packages 0 ([], []))"

text \<open>
  Modelled from the spec: the string values of the \<^verbatim>\<open>LicenseCategory\<close> enum, which
  \<^verbatim>\<open>types/license.ts\<close> declares; the spec lists the categories by these names.
\<close>

fun categoryString :: "LicenseCategory \<Rightarrow> string" where
  "categoryString PERMISSIVE = ''permissive''"
| "categoryString WEAK_COPYLEFT = ''weak_copyleft''"
| "categoryString COPYLEFT = ''copyleft''"
| "categoryString PROPRIETARY = ''proprietary''"
| "categoryString CUSTOM = ''custom''"
| "categoryString UNKNOWN = ''unknown''"
| "categoryString PUBLIC_DOMAIN = ''public_domain''"

text \<open>
  The body of the inner loop of \<^verbatim>\<open>validatePolicy\<close>: the four checks for one analysis
  and one of its licenses, each pushing onto \<^verbatim>\<open>violations\<close>.
\<close>

definition checkLicense ::
  "LicensePolicy \<Rightarrow> LicenseAnalysis \<Rightarrow> License \<Rightarrow> Violation list \<Rightarrow> Violation list" where
  "checkLicense policy analysis license vs =
     (let vs = (if spdxId license \<in> set (prohibitedLicenses policy)
                then vs @ [\<lparr>v_package = fst (package analysis), v_license = spdxId license,
                            violation = ''License is explicitly prohibited'',
                            v_severity = critical\<rparr>]
                else vs);
          vs = (if spdxId license \<in> set (reviewRequiredLicenses policy) \<and>
                   spdxId license \<notin> set (allowedLicenses policy)
                then vs @ [\<lparr>v_package = fst (package analysis), v_license = spdxId license,
                            violation = ''License requires legal review'',
                            v_severity = warning\<rparr>]
                else vs);
          categoryRule = find (\<lambda>rule. rule_category rule = category license)
                           (categoryRules policy);
          vs = (if (case categoryRule of None \<Rightarrow> False | Some rule \<Rightarrow> action rule = ''prohibit'')
                then vs @ [\<lparr>v_package = fst (package analysis), v_license = spdxId license,
                            violation = ''License category '' @ [CHR 0x27] @
                                        categoryString (category license) @ [CHR 0x27] @
                                        '' is prohibited'',
                            v_severity = error\<rparr>]
                else vs);
          vs = (if riskLevel analysis = CRITICAL \<and> maximumRiskLevel policy \<noteq> CRITICAL
                then vs @ [\<lparr>v_package = fst (package analysis), v_license = spdxId license,
                            violation = ''License risk level exceeds policy tolerance'',
                            v_severity = critical\<rparr>]
                else vs)
      in vs)"

text \<open>
  \<^verbatim>\<open>validatePolicy(packages, policy)\<close>: the analyses of the packages, then the two
  nested loops over the analyses and the licenses of each.
\<close>

definition validatePolicy ::
  "(Package \<Rightarrow> exn + LicenseAnalysis) \<Rightarrow> Package list \<Rightarrow> LicensePolicy \<Rightarrow> exn + PolicyResult" where
  "validatePolicy detect packages policy =
     (case analyzeLicenses detect packages of
        Inl e \<Rightarrow> Inl e
      | Inr licenseAnalyses \<Rightarrow>
          let vs = fold (\<lambda>analysis vs.
                           fold (\<lambda>license vs. checkLicense policy analysis license vs)
                             (licenses analysis) vs)
                     licenseAnalyses []
          in Inr \<lparr>compliant = (length vs = 0), violations = vs\<rparr>)"

text \<open>The \<^verbatim>\<open>switch (analysis.riskLevel)\<close> of \<^verbatim>\<open>calculateRiskScore\<close>.\<close>

fun riskWeight :: "LegalRiskLevel \<Rightarrow> rat" where
  "riskWeight CRITICAL = 20"
| "riskWeight VERY_HIGH = 15"
| "riskWeight HIGH = 10"
| "riskWeight MEDIUM = 5"
| "riskWeight LOW = 2"
| "riskWeight VERY_LOW = 1"

text \<open>
  \<^verbatim>\<open>calculateRiskScore(licenseAnalyses, compatibilityReport)\<close>: \<^verbatim>\<open>riskScore\<close> starts at
  0, every \<^verbatim>\<open>riskScore += w\<close> is an addition of numbers, the compatibility score is
  added to the sum, and \<^verbatim>\<open>Math.min(Math.round(riskScore / licenseAnalyses.length), 100)\<close>
  is returned.
\<close>

definition calculateRiskScore :: "LicenseAnalysis list \<Rightarrow> 'c CompatibilityReport \<Rightarrow> number" where
  "calculateRiskScore licenseAnalyses compatibilityReport =
     (let score = fold (\<lambda>analysis s. numAdd s (Finite (riskWeight (riskLevel analysis))))
                    licenseAnalyses (Finite 0);
          score = numAdd score (summary_riskScore compatibilityReport)
      in Math_min (Math_round (numDivide score (length licenseAnalyses))) 100)"

text \<open>\<^verbatim>\<open>determineOverallRisk(riskScore)\<close>.\<close>

definition determineOverallRisk :: "number \<Rightarrow> LegalRiskLevel" where
  "determineOverallRisk score =
     (if numGe score 80 then CRITICAL
      else if numGe score 60 then VERY_HIGH
      else if numGe score 40 then HIGH
      else if numGe score 20 then MEDIUM
      else if numGe score 10 then LOW
      else VERY_LOW)"

text \<open>
  \<^verbatim>\<open>assessLegalRisk(packages, options)\<close> of the service, as far as the two fields of
  the report go. The compatibility engine is the parameter \<open>compatibility\<close>; what it
  throws is thrown on.
\<close>

definition assessProjectLegalRisk ::
  "(Package \<Rightarrow> exn + LicenseAnalysis)
   \<Rightarrow> (Package list \<Rightarrow> LicenseAnalysis list \<Rightarrow> exn + 'c CompatibilityReport)
   \<Rightarrow> Package list \<Rightarrow> exn + LegalRiskReport" where
  "assessProjectLegalRisk detect compatibility packages =
     (case analyzeLicenses detect packages of
        Inl e \<Rightarrow> Inl e
      | Inr licenseAnalyses \<Rightarrow>
          (case compatibility packages licenseAnalyses of
             Inl e \<Rightarrow> Inl e
           | Inr compatibilityReport \<Rightarrow>
               let score = calculateRiskScore licenseAnalyses compatibilityReport;
                   risk = determineOverallRisk score
               in Inr \<lparr>overallRisk = risk, riskScore = score\<rparr>))"

section \<open>Compliance documents\<close>


text \<open>\<^verbatim>\<open>analysis.licenses[0]?.spdxId || 'Unknown'\<close>, the key of \<^verbatim>\<open>groupAnalysesByLicense\<close>.\<close>

definition firstLicenseId :: "LicenseAnalysis \<Rightarrow> string" where
  "firstLicenseId analysis =
     (case licenses analysis of
        [] \<Rightarrow> ''Unknown''
      | l # _ \<Rightarrow> if spdxId l = [] then ''Unknown'' else spdxId l)"

text \<open>
  \<^verbatim>\<open>groupAnalysesByLicense(licenseAnalyses)\<close>: a \<^verbatim>\<open>Map\<close> from the key to the array of
  its analyses, in insertion order of the keys; \<^verbatim>\<open>push\<close> extends the array in its
  place.
\<close>

definition groupAnalysesByLicense :: "LicenseAnalysis list \<Rightarrow> (string \<times> LicenseAnalysis list) list" where
  "groupAnalysesByLicense licenseAnalyses =
     fold (\<lambda>analysis groups.
             let primaryLicense' = firstLicenseId analysis;
                 groups = (if map_of groups primaryLicense' = None
                           then groups @ [(primaryLicense', [])] else groups)
             in AList.map_entry primaryLicense' (\<lambda>g. g @ [analysis]) groups)
       licenseAnalyses []"







text \<open>
  The object that \<^verbatim>\<open>generateJsonDocument\<close> builds. \<^verbatim>\<open>JSON.stringify(report, null, 2)\<close>
  is the parameter \<open>stringify\<close>. The options are not read (\<^verbatim>\<open>_options\<close>).
\<close>

record JsonLicense =
  json_spdxId :: string
  json_name :: string
  json_category :: LicenseCategory
  json_url :: "string option"

record JsonPackage =
  json_package_name :: string
  json_package_version :: string
  json_licenses :: "JsonLicense list"
  json_copyrightStatements :: "string list"
  json_riskLevel :: LegalRiskLevel

record JsonReport =
  generatedAt :: string
  packages :: "JsonPackage list"



section \<open>The license store as objects on a heap\<close>

text \<open>
  \<^verbatim>\<open>getLicense\<close> hands out the record that the store holds, not a copy of it, so
  whether a detection changes the store depends on what it does with that reference. For
  \<^verbatim>\<open>detectDeclaredLicense\<close> the records are objects on a heap: a heap is the list of
  the objects, an address is an index into it, and a new object is put at the end. The
  store maps an identifier to the address of its record. \<open>heapDb\<close> reads a store and a
  heap as the function from identifiers to records that the detector above works with.
\<close>

type_synonym ref = nat
type_synonym heap = "License list"
type_synonym LicenseStore = "string \<Rightarrow> exn + ref option"

definition alloc :: "heap \<Rightarrow> License \<Rightarrow> ref \<times> heap" where
  "alloc h obj = (length h, h @ [obj])"

definition heapDb :: "LicenseStore \<Rightarrow> heap \<Rightarrow> LicenseDb" where
  "heapDb store h ident =
     (case store ident of
        Inl e \<Rightarrow> Inl e
      | Inr None \<Rightarrow> Inr None
      | Inr (Some r) \<Rightarrow> Inr (Some (h ! r)))"

text \<open>Every address that the store hands out is on the heap.\<close>

definition storeOnHeap :: "LicenseStore \<Rightarrow> heap \<Rightarrow> bool" where
  "storeOnHeap store h = (\<forall>ident r. store ident = Inr (Some r) \<longrightarrow> r < length h)"

text \<open>
  The loop of \<^verbatim>\<open>detectDeclaredLicense\<close> over the parts, on the heap: the spread
  \<^verbatim>\<open>{ ...partLicense, confidence: 0.8 }\<close> allocates a copy with the field replaced.
\<close>

fun firstResolvableRef ::
  "LicenseStore \<Rightarrow> heap \<Rightarrow> string list \<Rightarrow> exn + (ref option \<times> heap)" where
  "firstResolvableRef store h [] = Inr (None, h)"
| "firstResolvableRef store h (part # parts) =
     (case store (trim part) of
        Inl e \<Rightarrow> Inl e
      | Inr (Some partLicense) \<Rightarrow>
          (case alloc h ((h ! partLicense)\<lparr>confidence := 8/10\<rparr>) of
             (r, h') \<Rightarrow> Inr (Some r, h'))
      | Inr None \<Rightarrow> firstResolvableRef store h parts)"

text \<open>
  \<^verbatim>\<open>detectDeclaredLicense(pkg)\<close> on the heap: the result is the address of the new
  object, beside the heap as the call leaves it.
\<close>

definition detectDeclaredLicenseRef ::
  "LicenseStore \<Rightarrow> heap \<Rightarrow> Package \<Rightarrow> exn + (ref option \<times> heap)" where
  "detectDeclaredLicenseRef store h pkg =
     (case pkg_license pkg of
        None \<Rightarrow> Inr (None, h)
      | Some declaredText \<Rightarrow>
          if declaredText = [] then Inr (None, h)
          else
            (let licenseExpression = trim declaredText in
             (case store licenseExpression of
                Inl e \<Rightarrow> Inl e
              | Inr (Some license) \<Rightarrow>
                  (case alloc h ((h ! license)\<lparr>confidence := 1\<rparr>) of
                     (r, h') \<Rightarrow> Inr (Some r, h'))
              | Inr None \<Rightarrow>
                  (let cleanedExpression =
                         filter (\<lambda>c. c \<noteq> CHR ''('' \<and> c \<noteq> CHR '')'')
                           (replaceKeyword ''AND'' (replaceKeyword ''OR'' licenseExpression));
                       parts = splitExpression cleanedExpression []
                   in firstResolvableRef store h parts))))"

section \<open>Reference definitions for the statements\<close>

text \<open>The values of the fulfilled results among settled ones, in their order.\<close>

definition fulfilled :: "(exn + 'a) list \<Rightarrow> 'a list" where
  "fulfilled results = concat (map (\<lambda>r. case r of Inr v \<Rightarrow> [v] | Inl e \<Rightarrow> []) results)"

text \<open>
  The four rules of policy validation for one license of one analysis, each as the list
  of the violations it emits (none or one).
\<close>

definition prohibitedRule :: "LicensePolicy \<Rightarrow> LicenseAnalysis \<Rightarrow> License \<Rightarrow> Violation list" where
  "prohibitedRule policy analysis l =
     (if spdxId l \<in> set (prohibitedLicenses policy)
      then [\<lparr>v_package = fst (package analysis), v_license = spdxId l,
             violation = ''License is explicitly prohibited'', v_severity = critical\<rparr>]
      else [])"

definition reviewRule :: "LicensePolicy \<Rightarrow> LicenseAnalysis \<Rightarrow> License \<Rightarrow> Violation list" where
  "reviewRule policy analysis l =
     (if spdxId l \<in> set (reviewRequiredLicenses policy) \<and>
         spdxId l \<notin> set (allowedLicenses policy)
      then [\<lparr>v_package = fst (package analysis), v_license = spdxId l,
             violation = ''License requires legal review'', v_severity = warning\<rparr>]
      else [])"

definition categoryViolation :: "LicenseAnalysis \<Rightarrow> License \<Rightarrow> Violation" where
  "categoryViolation analysis l =
     \<lparr>v_package = fst (package analysis), v_license = spdxId l,
      violation = ''License category '' @ [CHR 0x27] @ categoryString (category l) @
                  [CHR 0x27] @ '' is prohibited'',
      v_severity = error\<rparr>"

text \<open>
  The category rule as the specification words it: some rule of the policy has the
  category of the license and the action \<open>prohibit\<close>.
\<close>

definition categoryRuleSpec :: "LicensePolicy \<Rightarrow> LicenseAnalysis \<Rightarrow> License \<Rightarrow> Violation list" where
  "categoryRuleSpec policy analysis l =
     (if list_ex (\<lambda>rule. rule_category rule = category l \<and> action rule = ''prohibit'')
           (categoryRules policy)
      then [categoryViolation analysis l] else [])"

text \<open>
  The category rule on the first rule of the policy that has the category of the
  license: it emits when that rule's action is \<open>prohibit\<close>.
\<close>

definition categoryRuleFirst :: "LicensePolicy \<Rightarrow> LicenseAnalysis \<Rightarrow> License \<Rightarrow> Violation list" where
  "categoryRuleFirst policy analysis l =
     (case find (\<lambda>rule. rule_category rule = category l) (categoryRules policy) of
        None \<Rightarrow> []
      | Some rule \<Rightarrow> if action rule = ''prohibit'' then [categoryViolation analysis l] else [])"

definition riskRule :: "LicensePolicy \<Rightarrow> LicenseAnalysis \<Rightarrow> License \<Rightarrow> Violation list" where
  "riskRule policy analysis l =
     (if riskLevel analysis = CRITICAL \<and> maximumRiskLevel policy \<noteq> CRITICAL
      then [\<lparr>v_package = fst (package analysis), v_license = spdxId l,
             violation = ''License risk level exceeds policy tolerance'',
             v_severity = critical\<rparr>]
      else [])"

text \<open>
  The violations of a list of analyses: for every analysis and every license of it, in
  order, what the four rules emit, in the order of the rules. \<open>categoryRule\<close> is the
  reading of the category rule.
\<close>

definition ruleViolations ::
  "(LicensePolicy \<Rightarrow> LicenseAnalysis \<Rightarrow> License \<Rightarrow> Violation list)
   \<Rightarrow> LicensePolicy \<Rightarrow> LicenseAnalysis list \<Rightarrow> Violation list" where
  "ruleViolations categoryRule policy analyses =
     concat (map (\<lambda>a. concat (map (\<lambda>l. prohibitedRule policy a l @ reviewRule policy a l @
                                        categoryRule policy a l @ riskRule policy a l)
                               (licenses a)))
               analyses)"

text \<open>
  The weights of the per-analysis risk assessment as the specification lists them, by
  license category and by obligation severity, and its breakpoints.
\<close>

definition categoryWeightSpec :: "LicenseCategory \<Rightarrow> int" where
  "categoryWeightSpec c =
     (case c of
        PERMISSIVE \<Rightarrow> 1 | WEAK_COPYLEFT \<Rightarrow> 3 | COPYLEFT \<Rightarrow> 5 | PROPRIETARY \<Rightarrow> 10
      | CUSTOM \<Rightarrow> 7 | UNKNOWN \<Rightarrow> 8 | PUBLIC_DOMAIN \<Rightarrow> 0)"

definition severityWeightSpec :: "ObligationSeverity \<Rightarrow> int" where
  "severityWeightSpec s =
     (case s of SevCritical \<Rightarrow> 10 | SevHigh \<Rightarrow> 5 | SevMedium \<Rightarrow> 2 | SevLow \<Rightarrow> 1)"

definition weightedScore :: "License list \<Rightarrow> LicenseObligation list \<Rightarrow> int" where
  "weightedScore lics obls =
     sum_list (map (\<lambda>l. categoryWeightSpec (category l)) lics) +
     sum_list (map (\<lambda>ob. severityWeightSpec (severity ob)) obls)"

definition riskLevelSpec :: "int \<Rightarrow> LegalRiskLevel" where
  "riskLevelSpec s =
     (if 20 \<le> s then CRITICAL
      else if 15 \<le> s then VERY_HIGH
      else if 10 \<le> s then HIGH
      else if 5 \<le> s then MEDIUM
      else if 2 \<le> s then LOW
      else VERY_LOW)"

text \<open>The weights of the project risk score as the specification lists them.\<close>

definition riskWeightSpec :: "LegalRiskLevel \<Rightarrow> int" where
  "riskWeightSpec r =
     (case r of
        CRITICAL \<Rightarrow> 20 | VERY_HIGH \<Rightarrow> 15 | HIGH \<Rightarrow> 10 | MEDIUM \<Rightarrow> 5 | LOW \<Rightarrow> 2
      | VERY_LOW \<Rightarrow> 1)"

definition weightSum :: "LicenseAnalysis list \<Rightarrow> int" where
  "weightSum analyses = sum_list (map (\<lambda>a. riskWeightSpec (riskLevel a)) analyses)"

text \<open>
  The project risk score as the specification words it, for a finite compatibility
  score: the mean of the weights, plus the compatibility score, rounded and clamped to
  the range from 0 to 100.
\<close>

definition specRiskScore :: "LicenseAnalysis list \<Rightarrow> rat \<Rightarrow> rat" where
  "specRiskScore analyses compatibilityScore =
     max 0 (min 100
       (of_int \<lfloor>of_int (weightSum analyses) / of_nat (length analyses)
                + compatibilityScore + 1/2\<rfloor>))"

text \<open>The project-level breakpoints on a finite score.\<close>

definition projectRiskLevel :: "rat \<Rightarrow> LegalRiskLevel" where
  "projectRiskLevel s =
     (if s \<ge> 80 then CRITICAL
      else if s \<ge> 60 then VERY_HIGH
      else if s \<ge> 40 then HIGH
      else if s \<ge> 20 then MEDIUM
      else if s \<ge> 10 then LOW
      else VERY_LOW)"


text \<open>The analysis without the readings of the clock.\<close>

definition withoutMetadata :: "LicenseAnalysis \<Rightarrow> LicenseAnalysis" where
  "withoutMetadata a = a\<lparr>metadata := \<lparr>analyzedAt = 0, scanDuration = 0\<rparr>\<rparr>"

text \<open>
  The project risk score with the compatibility score pooled with the weights before the
  division by the number of analyses: the sum of the weights plus the compatibility
  score, divided by the number of analyses, both as operations on numbers, then rounded
  to an integer and capped at 100.
\<close>

definition pooledRiskScore :: "LicenseAnalysis list \<Rightarrow> number \<Rightarrow> number" where
  "pooledRiskScore analyses compatibilityScore =
     Math_min
       (Math_round
          (numDivide (numAdd (Finite (of_int (weightSum analyses))) compatibilityScore)
             (length analyses)))
       100"

text \<open>
  The issues of a detection, rule by rule: what each of the four rules emits for a
  package, its consolidated licenses and its declared license as resolved.
\<close>

definition expectedIssues :: "Package \<Rightarrow> License list \<Rightarrow> License option \<Rightarrow> Issue list" where
  "expectedIssues pkg lics declaredLicense =
     (if lics = []
      then [\<lparr>issue_type = missing_license, issue_severity = error,
             issue_description = ''No license detected in package''\<rparr>]
      else [])
     @ (if length lics > 1 \<and>
           (PROPRIETARY \<in> set (map category lics) \<or>
            length (filter (\<lambda>l. category l = COPYLEFT) lics) > 1)
        then [\<lparr>issue_type = conflicting_licenses, issue_severity = critical,
               issue_description = ''Potentially incompatible licenses: '' @
                                   join '', '' (map spdxId lics)\<rparr>]
        else [])
     @ map (\<lambda>l. \<lparr>issue_type = deprecated_license, issue_severity = warning,
                   issue_description = ''License '' @ spdxId l @
                                       '' has deprecated identifiers''\<rparr>)
         (filter (\<lambda>l. case deprecatedIds l of None \<Rightarrow> False | Some ids \<Rightarrow> ids \<noteq> []) lics)
     @ (case pkg_license pkg of
          None \<Rightarrow> []
        | Some expression \<Rightarrow>
            if expression \<noteq> [] \<and> declaredLicense = None
            then [\<lparr>issue_type = unrecognized_license, issue_severity = warning,
                   issue_description = ''Unrecognized license identifier: '' @ expression\<rparr>]
            else [])"


text \<open>
  The identifier of the primary license of an analysis, \<open>Unknown\<close> when it has none or
  the identifier is empty.
\<close>

definition primaryLicenseKey :: "LicenseAnalysis \<Rightarrow> string" where
  "primaryLicenseKey a =
     (case primaryLicense a of
        None \<Rightarrow> ''Unknown''
      | Some l \<Rightarrow> if spdxId l = [] then ''Unknown'' else spdxId l)"

text \<open>The primary license of the analysis is the first license of its list, if any.\<close>

definition primaryIsFirst :: "LicenseAnalysis \<Rightarrow> bool" where
  "primaryIsFirst a = (primaryLicense a = (case licenses a of [] \<Rightarrow> None | l # _ \<Rightarrow> Some l))"








section \<open>Example inputs\<close>

definition exampleMIT :: License where
  "exampleMIT =
     \<lparr>spdxId = ''MIT'', name = ''MIT License'', category = PERMISSIVE,
      obligations = [ATTRIBUTION, NOTICE_PRESERVATION], confidence = 1/2,
      deprecatedIds = None, fullText = None, url = None\<rparr>"

definition exampleGPL :: License where
  "exampleGPL =
     \<lparr>spdxId = ''GPL-3.0-only'', name = ''GNU General Public License v3.0 only'',
      category = COPYLEFT,
      obligations = [COPYLEFT_OBLIGATION, DISCLOSE_SOURCE, SAME_LICENSE], confidence = 1/2,
      deprecatedIds = Some [''GPL-3.0''], fullText = None, url = None\<rparr>"

text \<open>A store that knows two licenses and fails on the identifier \<open>BAD\<close>.\<close>

definition exampleDb :: LicenseDb where
  "exampleDb ident =
     (if ident = ''MIT'' then Inr (Some exampleMIT)
      else if ident = ''GPL-3.0-only'' then Inr (Some exampleGPL)
      else if ident = ''BAD'' then Inl (Error ''store unavailable'')
      else Inr None)"

text \<open>
  A package root whose \<^verbatim>\<open>LICENSE\<close> file is the GPL and whose \<^verbatim>\<open>COPYING\<close> file is
  the MIT license.
\<close>

definition exampleFs :: FileSystem where
  "exampleFs dir file =
     (if dir = ''/dual'' \<and> file = ''LICENSE''
      then Some ''GNU GENERAL PUBLIC LICENSE Version 3, 29 June 2007''
      else if dir = ''/dual'' \<and> file = ''COPYING''
      then Some ''MIT License''
      else None)"

definition exampleClock :: Clock where
  "exampleClock pkg = (1000, 1007, 1007)"

definition examplePackage :: "string \<Rightarrow> string option \<Rightarrow> string option \<Rightarrow> Package" where
  "examplePackage n l p = \<lparr>pkg_name = n, pkg_version = ''1.0.0'', pkg_license = l, pkg_path = p\<rparr>"

definition exampleDetect :: "Package \<Rightarrow> exn + LicenseAnalysis" where
  "exampleDetect = detectLicense exampleDb exampleFs (\<lambda>content. []) exampleClock"

text \<open>Twelve packages, the fourth of which makes the store fail.\<close>

definition examplePackages :: "Package list" where
  "examplePackages =
     [examplePackage ''p01'' (Some ''MIT'') None,
      examplePackage ''p02'' (Some ''MIT'') None,
      examplePackage ''p03'' None None,
      examplePackage ''p04'' (Some ''BAD'') None,
      examplePackage ''p05'' (Some ''GPL-3.0-only'') None,
      examplePackage ''p06'' (Some ''MIT'') None,
      examplePackage ''p07'' (Some ''MIT'') None,
      examplePackage ''p08'' (Some ''MIT'') None,
      examplePackage ''p09'' (Some ''MIT'') None,
      examplePackage ''p10'' (Some ''MIT'') None,
      examplePackage ''p11'' (Some ''(MIT OR GPL-3.0-only)'') None,
      examplePackage ''p12'' None (Some ''/dual'')]"

text \<open>
  A policy with two rules for the copyleft category, the first of which allows it; its
  risk tolerance is CRITICAL, so that the risk rule is silent.
\<close>

definition shadowedPolicy :: LicensePolicy where
  "shadowedPolicy =
     \<lparr>policy_name = ''shadowed'', prohibitedLicenses = [], reviewRequiredLicenses = [],
      allowedLicenses = [],
      categoryRules = [\<lparr>rule_category = COPYLEFT, action = ''allow''\<rparr>,
                       \<lparr>rule_category = COPYLEFT, action = ''prohibit''\<rparr>],
      maximumRiskLevel = CRITICAL\<rparr>"

text \<open>A policy under which every rule has something to say about the GPL.\<close>

definition strictPolicy :: LicensePolicy where
  "strictPolicy =
     \<lparr>policy_name = ''strict'', prohibitedLicenses = [''GPL-3.0-only''],
      reviewRequiredLicenses = [''GPL-3.0-only'', ''MIT''], allowedLicenses = [''MIT''],
      categoryRules = [\<lparr>rule_category = COPYLEFT, action = ''prohibit''\<rparr>],
      maximumRiskLevel = HIGH\<rparr>"

definition gplPackage :: Package where
  "gplPackage = examplePackage ''p05'' (Some ''GPL-3.0-only'') None"

definition bareDirectory :: Package where
  "bareDirectory = examplePackage ''p03'' None None"

text \<open>
  Two analyses of directories without licenses, each of risk level VERY\_LOW, and a
  compatibility report with a given risk score.
\<close>

definition bareAnalyses :: "LicenseAnalysis list" where
  "bareAnalyses = fulfilled (map exampleDetect [bareDirectory, bareDirectory])"

definition exampleReport :: "number \<Rightarrow> unit CompatibilityReport" where
  "exampleReport score =
     \<lparr>conflicts = [], overallCompatibility = ''compatible'', summary_riskScore = score\<rparr>"

text \<open>One analysis of each risk level, from the highest to the lowest.\<close>

definition levelAnalyses :: "LicenseAnalysis list" where
  "levelAnalyses =
     map (\<lambda>r. (hd bareAnalyses)\<lparr>riskLevel := r\<rparr>)
       [CRITICAL, VERY_HIGH, HIGH, MEDIUM, LOW, VERY_LOW]"

text \<open>
  One license of each category, and an obligation of low severity, which no obligation
  type has of itself.
\<close>

definition categoryLicenses :: "License list" where
  "categoryLicenses =
     map (\<lambda>c. exampleMIT\<lparr>category := c\<rparr>)
       [PERMISSIVE, WEAK_COPYLEFT, COPYLEFT, PROPRIETARY, CUSTOM, UNKNOWN, PUBLIC_DOMAIN]"

definition lowObligation :: LicenseObligation where
  "lowObligation =
     \<lparr>obligationType = ATTRIBUTION, description = ''Keep the notice'',
      severity = SevLow, scope = ScopeFile\<rparr>"




text \<open>
  A package that declares a license the store does not know, in the directory with the
  two license files.
\<close>

definition unknownDeclared :: Package where
  "unknownDeclared = examplePackage ''p13'' (Some ''Nonsense-1.0'') (Some ''/dual'')"

text \<open>
  The analysis of the directory with the two license files and no declared license, and
  options for a grouped document without header, footer or license texts.
\<close>

definition dualAnalyses :: "LicenseAnalysis list" where
  "dualAnalyses = fulfilled (map exampleDetect [examplePackage ''p12'' None (Some ''/dual'')])"


text \<open>The store of the two licenses with its records on a heap.\<close>

definition exampleHeap :: heap where
  "exampleHeap = [exampleMIT, exampleGPL]"

definition exampleStore :: LicenseStore where
  "exampleStore ident =
     (if ident = ''MIT'' then Inr (Some 0)
      else if ident = ''GPL-3.0-only'' then Inr (Some 1)
      else if ident = ''BAD'' then Inl (Error ''store unavailable'')
      else Inr None)"

definition mitPackage :: Package where
  "mitPackage = examplePackage ''p01'' (Some '' MIT '') (Some ''/dual'')"

text \<open>A label for an event: the name of the package that starts, or the join.\<close>

fun eventLabel :: "event \<Rightarrow> string" where
  "eventLabel (Started pkg) = ''start '' @ pkg_name pkg"
| "eventLabel (AllSettled results) = ''all settled''"

section \<open>Risk assessment: the weighted score and its breakpoints\<close>

lemma fold_add_sum_list:
  fixes a :: "'n::comm_monoid_add"
  shows "fold (\<lambda>x s. s + f x) xs a = a + sum_list (map f xs)"
  by (induction xs arbitrary: a) (simp_all add: add.assoc)

text \<open>The two switches and the chain of comparisons hold the specification's tables.\<close>

lemma categoryRisk_spec: "categoryRisk c = categoryWeightSpec c"
  by (cases c) (simp_all add: categoryWeightSpec_def)

lemma severityRisk_spec: "severityRisk s = severityWeightSpec s"
  by (cases s) (simp_all add: severityWeightSpec_def)

lemma scoreToRiskLevel_spec: "scoreToRiskLevel s = riskLevelSpec s"
  by (simp add: scoreToRiskLevel_def riskLevelSpec_def)

lemma riskLevelSpec_mono:
  "s \<le> t \<Longrightarrow> riskRank (riskLevelSpec s) \<le> riskRank (riskLevelSpec t)"
  by (simp add: riskLevelSpec_def)

text \<open>
  C4: the per-analysis risk level is the breakpoint mapping (at least 20 CRITICAL, 15
  VERY\_HIGH, 10 HIGH, 5 MEDIUM, 2 LOW, else VERY\_LOW) of the weighted score, the sum
  over the licenses of the category weights (permissive 1, weak copyleft 3, copyleft 5,
  proprietary 10, custom 7, unknown 8, public domain 0) plus the sum over the obligations
  of the severity weights (critical 10, high 5, medium 2, low 1); the mapping is
  monotonic non-decreasing in the score and inclusive at the lower bounds: 20 gives
  CRITICAL and 19 gives VERY\_HIGH.
\<close>

theorem assessLegalRisk_weighted_score:
  "assessLegalRisk lics obls = riskLevelSpec (weightedScore lics obls)
   \<and> (\<forall>s t. s \<le> t \<longrightarrow> riskRank (riskLevelSpec s) \<le> riskRank (riskLevelSpec t))
   \<and> riskLevelSpec 20 = CRITICAL
   \<and> riskLevelSpec 19 = VERY_HIGH"
proof -
  have "assessLegalRisk lics obls = riskLevelSpec (weightedScore lics obls)"
    by (simp add: assessLegalRisk_def Let_def fold_add_sum_list weightedScore_def
          categoryRisk_spec severityRisk_spec scoreToRiskLevel_spec)
  moreover have "\<forall>s t. s \<le> t \<longrightarrow> riskRank (riskLevelSpec s) \<le> riskRank (riskLevelSpec t)"
    using riskLevelSpec_mono by blast
  moreover have "riskLevelSpec 20 = CRITICAL" "riskLevelSpec 19 = VERY_HIGH"
    by (simp_all add: riskLevelSpec_def)
  ultimately show ?thesis by blast
qed

text \<open>
  One license of each category with an obligation of low severity scores
  1 + 3 + 5 + 10 + 7 + 8 + 0 + 1 = 35; the GPL with its three obligations of high severity
  scores 5 + 15 = 20, which is CRITICAL; the MIT license with two obligations of medium
  severity scores 1 + 4 = 5, which is MEDIUM and ranks below.
\<close>

theorem assessLegalRisk_weighted_score_witness:
  "weightedScore categoryLicenses [lowObligation] = 35
   \<and> assessLegalRisk categoryLicenses [lowObligation] = CRITICAL
   \<and> weightedScore [exampleGPL] (calculateObligations [exampleGPL]) = 20
   \<and> assessLegalRisk [exampleGPL] (calculateObligations [exampleGPL]) = CRITICAL
   \<and> weightedScore [exampleMIT] (calculateObligations [exampleMIT]) = 5
   \<and> assessLegalRisk [exampleMIT] (calculateObligations [exampleMIT]) = MEDIUM
   \<and> (5::int) \<le> 20
   \<and> riskRank (riskLevelSpec 5) \<le> riskRank (riskLevelSpec 20)"
proof -
  have le: "(5::int) \<le> 20" by simp
  have mono: "riskRank (riskLevelSpec 5) \<le> riskRank (riskLevelSpec 20)"
    using assessLegalRisk_weighted_score [of "[]" "[]"] le by blast
  have all: "weightedScore categoryLicenses [lowObligation] = 35"
    by code_simp
  have gpl: "weightedScore [exampleGPL] (calculateObligations [exampleGPL]) = 20"
    by code_simp
  have mit: "weightedScore [exampleMIT] (calculateObligations [exampleMIT]) = 5"
    by code_simp
  have levels: "riskLevelSpec 35 = CRITICAL" "riskLevelSpec 20 = CRITICAL"
    "riskLevelSpec 5 = MEDIUM"
    by (simp_all add: riskLevelSpec_def)
  from assessLegalRisk_weighted_score [of categoryLicenses "[lowObligation]"]
       assessLegalRisk_weighted_score [of "[exampleGPL]" "calculateObligations [exampleGPL]"]
       assessLegalRisk_weighted_score [of "[exampleMIT]" "calculateObligations [exampleMIT]"]
       all gpl mit levels le mono
  show ?thesis by simp
qed

section \<open>Batch analysis\<close>

lemma fold_push_fulfilled:
  "fold (\<lambda>result analyses. case result of Inr v \<Rightarrow> analyses @ [v] | Inl reason \<Rightarrow> analyses)
     results acc = acc @ fulfilled results"
  by (induction results arbitrary: acc) (auto simp: fulfilled_def split: sum.splits)

lemma fulfilled_append: "fulfilled (xs @ ys) = fulfilled xs @ fulfilled ys"
  by (simp add: fulfilled_def)

lemma analyzeLicense_id: "analyzeLicense detect = detect"
  by (rule ext) (simp add: analyzeLicense_def split: sum.splits)

declare analyzeLicensesLoop.simps [simp del]

text \<open>
  The loop from the index \<open>10 * j\<close>: it appends the fulfilled results of the packages that
  are left, and, batch after batch from the \<open>j\<close>-th one, the starts of the ten packages
  of the batch (fewer in the last one) followed by their join.
\<close>

lemma analyzeLicensesLoop_from:
  "i = 10 * j \<Longrightarrow>
   analyzeLicensesLoop detect pkgs i st =
     (fst st @ fulfilled (map detect (drop i pkgs)),
      snd st @ concat (map (\<lambda>k. map Started (take 10 (drop (10 * k) pkgs)) @
                                 [AllSettled (map detect (take 10 (drop (10 * k) pkgs)))])
                         [j..<(length pkgs + 9) div 10]))"
proof (induction detect pkgs i st arbitrary: j rule: analyzeLicensesLoop.induct)
  case (1 detect pkgs i analyses events)
  let ?m = "(length pkgs + 9) div 10"
  let ?sec = "\<lambda>k. map Started (take 10 (drop (10 * k) pkgs)) @
                   [AllSettled (map detect (take 10 (drop (10 * k) pkgs)))]"
  show ?case
  proof (cases "i < length pkgs")
    case False
    with "1.prems" have past: "?m \<le> j" by simp
    from False past show ?thesis
      by (simp add: analyzeLicensesLoop.simps [of detect pkgs i analyses events]
            fulfilled_def)
  next
    case True
    with "1.prems" have "j < ?m" by simp
    then have upt: "[j..<?m] = j # [Suc j..<?m]"
      by (rule upt_conv_Cons)
    have sl: "slice pkgs i (i + 10) = take 10 (drop i pkgs)"
      by (simp add: slice_def)
    have next_index: "i + 10 = 10 * Suc j"
      using "1.prems" by simp
    have split: "fulfilled (map detect (take 10 (drop i pkgs))) @
                 fulfilled (map detect (drop (i + 10) pkgs)) =
                 fulfilled (map detect (drop i pkgs))"
    proof -
      have "take 10 (drop i pkgs) @ drop 10 (drop i pkgs) = drop i pkgs"
        by (rule append_take_drop_id)
      moreover have "drop 10 (drop i pkgs) = drop (i + 10) pkgs"
        by (simp add: add.commute)
      ultimately have "take 10 (drop i pkgs) @ drop (i + 10) pkgs = drop i pkgs"
        by (simp only:)
      then show ?thesis
        by (metis fulfilled_append map_append)
    qed
    have "analyzeLicensesLoop detect pkgs i (analyses, events) =
            analyzeLicensesLoop detect pkgs (i + 10)
              (analyses @ fulfilled (map detect (take 10 (drop i pkgs))),
               (events @ map Started (take 10 (drop i pkgs))) @
               [AllSettled (map detect (take 10 (drop i pkgs)))])"
      using True
      by (simp add: analyzeLicensesLoop.simps [of detect pkgs i analyses events] Let_def
               fold_push_fulfilled sl analyzeLicense_id)
    also have "\<dots> =
            ((analyses @ fulfilled (map detect (take 10 (drop i pkgs)))) @
               fulfilled (map detect (drop (i + 10) pkgs)),
             ((events @ map Started (take 10 (drop i pkgs))) @
               [AllSettled (map detect (take 10 (drop i pkgs)))]) @
               concat (map ?sec [Suc j..<?m]))"
      using True next_index
      by (subst "1.IH" [where j = "Suc j"])
         (simp_all add: fold_push_fulfilled slice_def analyzeLicense_id)
    also have "\<dots> = (analyses @ fulfilled (map detect (drop i pkgs)),
                      events @ concat (map ?sec [j..<?m]))"
    proof -
      have "?sec j = map Started (take 10 (drop i pkgs)) @
                     [AllSettled (map detect (take 10 (drop i pkgs)))]"
        using "1.prems" by simp
      then have "concat (map ?sec [j..<?m]) =
                   (map Started (take 10 (drop i pkgs)) @
                    [AllSettled (map detect (take 10 (drop i pkgs)))]) @
                   concat (map ?sec [Suc j..<?m])"
        by (simp only: upt list.map concat.simps)
      then show ?thesis
        by (simp only: split [symmetric] append_assoc)
    qed
    finally show ?thesis by simp
  qed
qed

lemma analyzeLicenses_fulfilled:
  "analyzeLicenses detect pkgs = Inr (fulfilled (map detect pkgs))"
  using analyzeLicensesLoop_from [of 0 0 detect pkgs "([], [])"]
  by (simp add: analyzeLicenses_def)

lemma length_fulfilled:
  "length (fulfilled (map f xs)) + length (filter (\<lambda>x. isl (f x)) xs) = length xs"
  by (induction xs) (auto simp: fulfilled_def split: sum.splits)

text \<open>
  C3: when exactly one detection of the \<open>N\<close> packages fails, batch analysis returns (it
  does not raise) exactly \<open>N - 1\<close> analyses, the fulfilled ones in the order of the
  packages. The call works through the packages in batches of ten: for
  \<open>k = 0, 1, \<dots>\<close> below \<open>\<lceil>N / 10\<rceil>\<close>, in this order, it starts the detections of the
  packages \<open>10 k\<close> to \<open>10 k + 9\<close> (as far as there are any) and then waits for all of them
  to settle, before any package of the next batch is started.
\<close>

theorem analyzeLicenses_one_failure:
  assumes "length (filter (\<lambda>p. isl (detect p)) pkgs) = 1"
  shows "\<exists>analyses. analyzeLicenses detect pkgs = Inr analyses
           \<and> length analyses = length pkgs - 1
           \<and> analyses = fulfilled (map detect pkgs)
           \<and> analyzeLicensesEvents detect pkgs =
               concat (map (\<lambda>k. map Started (take 10 (drop (10 * k) pkgs)) @
                                  [AllSettled (map detect (take 10 (drop (10 * k) pkgs)))])
                         [0..<(length pkgs + 9) div 10])"
proof -
  have "length (fulfilled (map detect pkgs)) = length pkgs - 1"
    using length_fulfilled [of detect pkgs] assms by simp
  moreover have "analyzeLicensesEvents detect pkgs =
               concat (map (\<lambda>k. map Started (take 10 (drop (10 * k) pkgs)) @
                                  [AllSettled (map detect (take 10 (drop (10 * k) pkgs)))])
                         [0..<(length pkgs + 9) div 10])"
    using analyzeLicensesLoop_from [of 0 0 detect pkgs "([], [])"]
    by (simp add: analyzeLicensesEvents_def)
  ultimately show ?thesis
    using analyzeLicenses_fulfilled [of detect pkgs] by blast
qed

text \<open>
  Twelve packages: the first ten are started and joined, then the last two; the store
  fails for the fourth one, and the eleven others are analysed.
\<close>

theorem analyzeLicenses_one_failure_witness:
  "length (filter (\<lambda>p. isl (exampleDetect p)) examplePackages) = 1
   \<and> (\<exists>analyses. analyzeLicenses exampleDetect examplePackages = Inr analyses
         \<and> length analyses = 11
         \<and> map (\<lambda>a. fst (package a)) analyses =
             [''p01'', ''p02'', ''p03'', ''p05'', ''p06'', ''p07'', ''p08'', ''p09'', ''p10'',
              ''p11'', ''p12''])
   \<and> map eventLabel (analyzeLicensesEvents exampleDetect examplePackages) =
       [''start p01'', ''start p02'', ''start p03'', ''start p04'', ''start p05'',
        ''start p06'', ''start p07'', ''start p08'', ''start p09'', ''start p10'',
        ''all settled'', ''start p11'', ''start p12'', ''all settled'']"
proof -
  have one: "length (filter (\<lambda>p. isl (exampleDetect p)) examplePackages) = 1"
    by code_simp
  have len: "length examplePackages = 12"
    by (simp add: examplePackages_def)
  have names: "map (\<lambda>a. fst (package a)) (fulfilled (map exampleDetect examplePackages)) =
      [''p01'', ''p02'', ''p03'', ''p05'', ''p06'', ''p07'', ''p08'', ''p09'', ''p10'',
       ''p11'', ''p12'']"
    by code_simp
  have labels: "map eventLabel
      (concat (map (\<lambda>k. map Started (take 10 (drop (10 * k) examplePackages)) @
                         [AllSettled (map exampleDetect
                                        (take 10 (drop (10 * k) examplePackages)))])
                 [0..<(length examplePackages + 9) div 10])) =
       [''start p01'', ''start p02'', ''start p03'', ''start p04'', ''start p05'',
        ''start p06'', ''start p07'', ''start p08'', ''start p09'', ''start p10'',
        ''all settled'', ''start p11'', ''start p12'', ''all settled'']"
    by code_simp
  from analyzeLicenses_one_failure [OF one] len names labels
  show ?thesis using one by auto
qed

section \<open>Policy validation\<close>

lemma checkLicense_append:
  "checkLicense policy a l vs =
     vs @ (prohibitedRule policy a l @ reviewRule policy a l @ categoryRuleFirst policy a l @
           riskRule policy a l)"
  by (simp add: checkLicense_def Let_def prohibitedRule_def reviewRule_def
        categoryRuleFirst_def categoryViolation_def riskRule_def split: option.splits)

lemma fold_checkLicense:
  "fold (\<lambda>license vs. checkLicense policy a license vs) ls vs =
     vs @ concat (map (\<lambda>l. prohibitedRule policy a l @ reviewRule policy a l @
                            categoryRuleFirst policy a l @ riskRule policy a l) ls)"
  by (induction ls arbitrary: vs) (simp_all add: checkLicense_append)

lemma fold_analyses_checkLicense:
  "fold (\<lambda>analysis vs. fold (\<lambda>license vs. checkLicense policy analysis license vs)
                          (licenses analysis) vs) as vs =
     vs @ ruleViolations categoryRuleFirst policy as"
  by (induction as arbitrary: vs) (simp_all add: fold_checkLicense ruleViolations_def)

text \<open>
  The two loops of \<open>validatePolicy\<close> emit, for the fulfilled analyses in order, what the
  four rules give for each license.
\<close>

lemma validatePolicy_ruleViolations:
  "validatePolicy detect pkgs policy =
     Inr \<lparr>compliant = (ruleViolations categoryRuleFirst policy (fulfilled (map detect pkgs)) = []),
          violations = ruleViolations categoryRuleFirst policy (fulfilled (map detect pkgs))\<rparr>"
  by (simp add: validatePolicy_def analyzeLicenses_fulfilled Let_def
        fold_analyses_checkLicense)

lemma ruleViolations_append:
  "ruleViolations c policy (as @ bs) = ruleViolations c policy as @ ruleViolations c policy bs"
  by (simp add: ruleViolations_def)

lemma ruleViolations_no_licenses:
  "\<forall>a \<in> set as. licenses a = [] \<Longrightarrow> ruleViolations c policy as = []"
  by (simp add: ruleViolations_def)

lemma ruleViolations_filter:
  "ruleViolations c policy (filter (\<lambda>a. licenses a \<noteq> []) as) = ruleViolations c policy as"
  by (induction as) (simp_all add: ruleViolations_def)

lemma fulfilled_filter:
  "fulfilled (map f (filter (\<lambda>x. case f x of Inl e \<Rightarrow> False | Inr a \<Rightarrow> P a) xs)) =
     filter P (fulfilled (map f xs))"
  by (induction xs) (auto simp: fulfilled_def split: sum.splits)

text \<open>
  C6, as the claim words the category rule: some rule of the policy has the category of
  the license and the action \<open>prohibit\<close>. Under a policy whose first rule for the copyleft
  category allows it and whose second prohibits it, a package under the GPL is reported
  compliant without any violation, where the claim has an error.
\<close>

theorem validatePolicy_category_rule_counterexample:
  "validatePolicy exampleDetect [gplPackage] shadowedPolicy =
     Inr \<lparr>compliant = True, violations = []\<rparr>
   \<and> ruleViolations categoryRuleSpec shadowedPolicy (fulfilled (map exampleDetect [gplPackage])) =
       [\<lparr>v_package = ''p05'', v_license = ''GPL-3.0-only'',
         violation = ''License category '' @ [CHR 0x27] @ ''copyleft'' @ [CHR 0x27] @
                     '' is prohibited'',
         v_severity = error\<rparr>]"
proof -
  have "ruleViolations categoryRuleFirst shadowedPolicy
          (fulfilled (map exampleDetect [gplPackage])) = []"
    by code_simp
  then have "validatePolicy exampleDetect [gplPackage] shadowedPolicy =
     Inr \<lparr>compliant = True, violations = []\<rparr>"
    by (simp add: validatePolicy_ruleViolations)
  moreover have
    "ruleViolations categoryRuleSpec shadowedPolicy (fulfilled (map exampleDetect [gplPackage])) =
       [\<lparr>v_package = ''p05'', v_license = ''GPL-3.0-only'',
         violation = ''License category '' @ [CHR 0x27] @ ''copyleft'' @ [CHR 0x27] @
                     '' is prohibited'',
         v_severity = error\<rparr>]"
    by code_simp
  ultimately show ?thesis by blast
qed

text \<open>
  C6, amended: \<open>validatePolicy\<close> returns, for the analyses of the packages whose detection
  succeeded, in order, and for every license of each, in order, what the four rules emit
  in this order: a critical violation when the identifier is prohibited; a warning when
  it requires review and is not allowed; an error when the first rule of the policy with
  the category of the license has the action \<open>prohibit\<close>; a critical violation when the
  risk level of the analysis is CRITICAL and the maximum of the policy is not. The result
  is compliant exactly when this list is empty.
\<close>

theorem validatePolicy_rules:
  "validatePolicy detect pkgs policy =
     Inr \<lparr>compliant = (ruleViolations categoryRuleFirst policy (fulfilled (map detect pkgs)) = []),
          violations = ruleViolations categoryRuleFirst policy (fulfilled (map detect pkgs))\<rparr>"
  by (rule validatePolicy_ruleViolations)

text \<open>Under the strict policy all four rules fire on the package under the GPL.\<close>

theorem validatePolicy_rules_witness:
  "validatePolicy exampleDetect [gplPackage] strictPolicy =
     Inr \<lparr>compliant = False,
          violations =
            [\<lparr>v_package = ''p05'', v_license = ''GPL-3.0-only'',
              violation = ''License is explicitly prohibited'', v_severity = critical\<rparr>,
             \<lparr>v_package = ''p05'', v_license = ''GPL-3.0-only'',
              violation = ''License requires legal review'', v_severity = warning\<rparr>,
             \<lparr>v_package = ''p05'', v_license = ''GPL-3.0-only'',
              violation = ''License category '' @ [CHR 0x27] @ ''copyleft'' @ [CHR 0x27] @
                          '' is prohibited'',
              v_severity = error\<rparr>,
             \<lparr>v_package = ''p05'', v_license = ''GPL-3.0-only'',
              violation = ''License risk level exceeds policy tolerance'',
              v_severity = critical\<rparr>]\<rparr>"
proof -
  have "ruleViolations categoryRuleFirst strictPolicy
          (fulfilled (map exampleDetect [gplPackage])) =
            [\<lparr>v_package = ''p05'', v_license = ''GPL-3.0-only'',
              violation = ''License is explicitly prohibited'', v_severity = critical\<rparr>,
             \<lparr>v_package = ''p05'', v_license = ''GPL-3.0-only'',
              violation = ''License requires legal review'', v_severity = warning\<rparr>,
             \<lparr>v_package = ''p05'', v_license = ''GPL-3.0-only'',
              violation = ''License category '' @ [CHR 0x27] @ ''copyleft'' @ [CHR 0x27] @
                          '' is prohibited'',
              v_severity = error\<rparr>,
             \<lparr>v_package = ''p05'', v_license = ''GPL-3.0-only'',
              violation = ''License risk level exceeds policy tolerance'',
              v_severity = critical\<rparr>]"
    by code_simp
  with validatePolicy_rules [of exampleDetect "[gplPackage]" strictPolicy]
  show ?thesis by simp
qed

text \<open>
  C10: an analysis without licenses adds no violation under any policy, whatever its
  risk level: the result of \<open>validatePolicy\<close> is the same when the packages whose
  analysis has no license are left out. A project in which every analysed package has no
  license is reported compliant, with no violation.
\<close>

theorem validatePolicy_no_licenses:
  "validatePolicy detect pkgs policy =
     validatePolicy detect
       (filter (\<lambda>p. case detect p of Inl e \<Rightarrow> False | Inr a \<Rightarrow> licenses a \<noteq> []) pkgs) policy
   \<and> ((\<forall>p \<in> set pkgs. case detect p of Inl e \<Rightarrow> True | Inr a \<Rightarrow> licenses a = [])
        \<longrightarrow> validatePolicy detect pkgs policy = Inr \<lparr>compliant = True, violations = []\<rparr>)"
proof (intro conjI impI)
  show "validatePolicy detect pkgs policy =
     validatePolicy detect
       (filter (\<lambda>p. case detect p of Inl e \<Rightarrow> False | Inr a \<Rightarrow> licenses a \<noteq> []) pkgs) policy"
    by (simp add: validatePolicy_ruleViolations fulfilled_filter ruleViolations_filter)
next
  assume none: "\<forall>p \<in> set pkgs. case detect p of Inl e \<Rightarrow> True | Inr a \<Rightarrow> licenses a = []"
  have "\<forall>a \<in> set (fulfilled (map detect pkgs)). licenses a = []"
    using none by (induction pkgs) (auto simp: fulfilled_def split: sum.splits)
  then have "ruleViolations categoryRuleFirst policy (fulfilled (map detect pkgs)) = []"
    by (rule ruleViolations_no_licenses)
  then show "validatePolicy detect pkgs policy = Inr \<lparr>compliant = True, violations = []\<rparr>"
    by (simp add: validatePolicy_ruleViolations)
qed

text \<open>
  A directory without a declared license and without license files has no license; the
  strict policy has nothing against it.
\<close>

theorem validatePolicy_no_licenses_witness:
  "(case exampleDetect bareDirectory of Inl e \<Rightarrow> True | Inr a \<Rightarrow> licenses a = [])
   \<and> validatePolicy exampleDetect [bareDirectory] strictPolicy =
       Inr \<lparr>compliant = True, violations = []\<rparr>"
proof -
  have bare: "case exampleDetect bareDirectory of Inl e \<Rightarrow> True | Inr a \<Rightarrow> licenses a = []"
    by code_simp
  then have none:
    "\<forall>p \<in> set [bareDirectory]. case exampleDetect p of Inl e \<Rightarrow> True | Inr a \<Rightarrow> licenses a = []"
    by simp
  with validatePolicy_no_licenses [of exampleDetect "[bareDirectory]" strictPolicy] bare
  show ?thesis by blast
qed

text \<open>
  The clock enters an analysis through its metadata only, and no rule of the policy
  reads the metadata.
\<close>

lemma detectLicense_clock:
  "map_sum id withoutMetadata (detectLicense db fs copyrightMatches clock1 pkg) =
   map_sum id withoutMetadata (detectLicense db fs copyrightMatches clock2 pkg)"
  by (cases "clock1 pkg"; cases "clock2 pkg")
     (simp add: detectLicense_def withoutMetadata_def Let_def split: sum.splits prod.splits)

lemma fulfilled_map_sum:
  "fulfilled (map (\<lambda>x. map_sum id g (f x)) xs) = map g (fulfilled (map f xs))"
  by (induction xs) (auto simp: fulfilled_def split: sum.splits)

lemma rules_withoutMetadata:
  "prohibitedRule policy (withoutMetadata a) l = prohibitedRule policy a l"
  "reviewRule policy (withoutMetadata a) l = reviewRule policy a l"
  "categoryRuleFirst policy (withoutMetadata a) l = categoryRuleFirst policy a l"
  "riskRule policy (withoutMetadata a) l = riskRule policy a l"
  by (simp_all add: prohibitedRule_def reviewRule_def categoryRuleFirst_def
        categoryViolation_def riskRule_def withoutMetadata_def split: option.splits)

lemma ruleViolations_withoutMetadata:
  "ruleViolations categoryRuleFirst policy (map withoutMetadata as) =
     ruleViolations categoryRuleFirst policy as"
proof -
  have "licenses (withoutMetadata a) = licenses a" for a
    by (simp add: withoutMetadata_def)
  then show ?thesis
    by (simp add: ruleViolations_def rules_withoutMetadata comp_def)
qed

lemma fulfilled_clock:
  "map withoutMetadata (fulfilled (map (detectLicense db fs copyrightMatches clock1) pkgs)) =
   map withoutMetadata (fulfilled (map (detectLicense db fs copyrightMatches clock2) pkgs))"
proof -
  have eq: "(\<lambda>p. map_sum id withoutMetadata (detectLicense db fs copyrightMatches clock1 p)) =
            (\<lambda>p. map_sum id withoutMetadata (detectLicense db fs copyrightMatches clock2 p))"
    by (rule ext) (rule detectLicense_clock)
  have "fulfilled (map (\<lambda>p. map_sum id withoutMetadata
                              (detectLicense db fs copyrightMatches clock1 p)) pkgs) =
        fulfilled (map (\<lambda>p. map_sum id withoutMetadata
                              (detectLicense db fs copyrightMatches clock2 p)) pkgs)"
    by (simp only: eq)
  then show ?thesis by (simp only: fulfilled_map_sum)
qed

text \<open>
  C9: \<open>validatePolicy\<close> is deterministic. With the same store, the same files and the
  same regular-expression matches, two calls on the same packages and policy return the
  same result, the same violations in the same order and the same flag, whatever the
  clock reads during either call: the time of the analysis is the only input of a call
  that is not fixed by the packages, the files and the store.
\<close>

theorem validatePolicy_deterministic:
  "validatePolicy (detectLicense db fs copyrightMatches clock1) pkgs policy =
   validatePolicy (detectLicense db fs copyrightMatches clock2) pkgs policy"
proof -
  have "ruleViolations categoryRuleFirst policy
          (fulfilled (map (detectLicense db fs copyrightMatches clock1) pkgs)) =
        ruleViolations categoryRuleFirst policy
          (map withoutMetadata (fulfilled (map (detectLicense db fs copyrightMatches clock1) pkgs)))"
    by (simp only: ruleViolations_withoutMetadata)
  also have "\<dots> = ruleViolations categoryRuleFirst policy
          (map withoutMetadata (fulfilled (map (detectLicense db fs copyrightMatches clock2) pkgs)))"
    by (simp only: fulfilled_clock [of db fs copyrightMatches clock1 pkgs clock2])
  also have "\<dots> = ruleViolations categoryRuleFirst policy
          (fulfilled (map (detectLicense db fs copyrightMatches clock2) pkgs))"
    by (simp only: ruleViolations_withoutMetadata)
  finally show ?thesis
    by (simp only: validatePolicy_ruleViolations)
qed

text \<open>Two calls on the twelve packages, a second apart by the clock.\<close>

theorem validatePolicy_deterministic_witness:
  "validatePolicy (detectLicense exampleDb exampleFs (\<lambda>content. []) exampleClock)
     examplePackages strictPolicy =
   validatePolicy (detectLicense exampleDb exampleFs (\<lambda>content. []) (\<lambda>p. (2000, 2003, 2004)))
     examplePackages strictPolicy"
  by (rule validatePolicy_deterministic)

section \<open>Project risk score\<close>

text \<open>An integer below \<open>2\<^sup>5\<^sup>3\<close> in absolute value is a number as it is.\<close>

lemma roundEven_of_int: "roundEven (of_int j) = j"
  by (simp add: roundEven_def)

lemma binade_of_int_le:
  assumes "0 < k" and "k < 2 ^ 53"
  shows "binade (of_int k) \<le> 52"
proof -
  have "bitlen k \<le> 53"
    using assms(2) by (simp add: bitlen_le_iff_power)
  moreover have "quotient_of (of_int k :: rat) = (k, 1)"
    by (metis Rat.of_int_def quotient_of_int)
  moreover have "bitlen 1 = 1"
    by (simp add: bitlen_alt_def)
  ultimately show ?thesis
    by (simp add: binade_def Let_def)
qed

lemma roundDouble_of_int:
  assumes "\<bar>k\<bar> < 2 ^ 53"
  shows "roundDouble (of_int k) = Finite (of_int k)"
proof (cases "k = 0")
  case True
  then show ?thesis by (simp add: roundDouble_def)
next
  case False
  define e where "e = max (binade \<bar>of_int k\<bar>) (- 1022)"
  define n where "n = nat (52 - e)"
  have "binade (of_int \<bar>k\<bar>) \<le> 52"
    using False assms by (intro binade_of_int_le) simp_all
  then have "binade \<bar>of_int k\<bar> \<le> 52"
    by (simp only: of_int_abs)
  then have e: "e \<le> 52" unfolding e_def by simp
  then have exp: "e - 52 = - int n" by (simp add: n_def)
  have ulp: "(2::rat) powi (e - 52) = 1 / 2 ^ n"
    by (simp add: exp power_int_minus field_simps)
  have quot: "(of_int k :: rat) / (2 powi (e - 52)) = of_int (k * 2 ^ n)"
    by (simp add: ulp)
  have r: "of_int (roundEven (of_int k / (2 powi (e - 52)))) * ((2::rat) powi (e - 52)) = of_int k"
    by (simp only: quot roundEven_of_int) (simp add: ulp)
  have "(of_int \<bar>k\<bar> :: rat) < of_int (2 ^ 53)"
    using assms by (simp only: of_int_less_iff)
  then have "\<bar>of_int k :: rat\<bar> < 2 ^ 53"
    by (simp only: of_int_abs of_int_power of_int_numeral)
  also have "(2::rat) ^ 53 \<le> 2 ^ 1024"
    by (rule power_increasing) simp_all
  finally have "\<bar>of_int k :: rat\<bar> < 2 ^ 1024" .
  moreover have "(2::rat) powi 1024 = 2 ^ 1024"
    by (simp only: power_int_numeral)
  ultimately have small: "\<not> \<bar>of_int k :: rat\<bar> \<ge> 2 powi 1024"
    by (simp only: not_le)
  show ?thesis
    using False small unfolding roundDouble_def Let_def e_def [symmetric] r
    by simp
qed

text \<open>Rounding keeps a result that is not negative from becoming negative.\<close>

lemma roundEven_nonneg: "0 \<le> m \<Longrightarrow> 0 \<le> roundEven m"
  by (simp add: roundEven_def Let_def)

lemma roundDouble_nonneg:
  assumes "0 \<le> x"
  shows "(\<exists>r. roundDouble x = Finite r \<and> 0 \<le> r) \<or> roundDouble x = PosInfinity"
proof (cases "x = 0")
  case True
  then show ?thesis by (simp add: roundDouble_def)
next
  case False
  with assms have pos: "0 < x" by simp
  define ulp :: rat where "ulp = 2 powi (max (binade \<bar>x\<bar>) (- 1022) - 52)"
  have "0 < ulp" by (simp add: ulp_def)
  with assms have "0 \<le> x / ulp" by simp
  then have "0 \<le> roundEven (x / ulp)" by (rule roundEven_nonneg)
  with \<open>0 < ulp\<close> have "0 \<le> of_int (roundEven (x / ulp)) * ulp" by simp
  with pos False show ?thesis
    unfolding roundDouble_def Let_def ulp_def [symmetric] by auto
qed

text \<open>The switch of \<open>calculateRiskScore\<close> holds the specification's weights.\<close>

lemma riskWeight_spec: "riskWeight r = of_int (riskWeightSpec r)"
  by (cases r) (simp_all add: riskWeightSpec_def)

lemma riskWeightSpec_bounds: "0 \<le> riskWeightSpec r \<and> riskWeightSpec r \<le> 20"
  by (cases r) (simp_all add: riskWeightSpec_def)

lemma weightSum_bounds: "0 \<le> weightSum as \<and> weightSum as \<le> 20 * int (length as)"
proof (induction as)
  case Nil
  then show ?case by (simp add: weightSum_def)
next
  case (Cons a as)
  with riskWeightSpec_bounds [of "riskLevel a"] show ?case
    by (simp add: weightSum_def)
qed

text \<open>
  The additions of the weights are exact: every partial sum is an integer far below
  \<open>2\<^sup>5\<^sup>3\<close>.
\<close>

lemma fold_weights:
  assumes "0 \<le> m" and "m + 20 * int (length as) < 2 ^ 53"
  shows "fold (\<lambda>analysis s. numAdd s (Finite (riskWeight (riskLevel analysis)))) as
           (Finite (of_int m)) = Finite (of_int (m + weightSum as))"
  using assms
proof (induction as arbitrary: m)
  case Nil
  then show ?case by (simp add: weightSum_def)
next
  case (Cons a as)
  let ?w = "riskWeightSpec (riskLevel a)"
  have w: "0 \<le> ?w" "?w \<le> 20"
    using riskWeightSpec_bounds [of "riskLevel a"] by simp_all
  with Cons.prems have "\<bar>m + ?w\<bar> < 2 ^ 53" by simp
  then have step: "numAdd (Finite (of_int m)) (Finite (riskWeight (riskLevel a))) =
                     Finite (of_int (m + ?w))"
    using roundDouble_of_int [of "m + ?w"] by (simp add: riskWeight_spec)
  have "fold (\<lambda>analysis s. numAdd s (Finite (riskWeight (riskLevel analysis)))) as
           (Finite (of_int (m + ?w))) = Finite (of_int ((m + ?w) + weightSum as))"
    using Cons.prems w by (intro Cons.IH) simp_all
  with step show ?case
    by (simp add: weightSum_def add.assoc)
qed

lemma calculateRiskScore_pooled:
  assumes "length as < 2 ^ 32"
  shows "calculateRiskScore as report = pooledRiskScore as (summary_riskScore report)"
proof -
  have "20 * int (length as) < 20 * 2 ^ 32"
    using assms by simp
  also have "\<dots> < (2::int) ^ 53" by simp
  finally have "fold (\<lambda>analysis s. numAdd s (Finite (riskWeight (riskLevel analysis)))) as
                  (Finite (of_int 0)) = Finite (of_int (0 + weightSum as))"
    by (intro fold_weights) simp_all
  then show ?thesis
    by (simp add: calculateRiskScore_def pooledRiskScore_def Let_def)
qed

text \<open>\<open>determineOverallRisk\<close> applies the project-level breakpoints to a finite score.\<close>

lemma determineOverallRisk_Finite: "determineOverallRisk (Finite s) = projectRiskLevel s"
  by (simp add: determineOverallRisk_def projectRiskLevel_def)

lemma Math_min_le: "Math_min x 100 = Finite s \<Longrightarrow> s \<le> 100"
  by (cases x) auto

lemma pooledRiskScore_nonneg:
  assumes "as \<noteq> []" and "0 \<le> c"
  shows "\<exists>s. pooledRiskScore as (Finite c) = Finite s \<and> 0 \<le> s \<and> s \<le> 100"
proof -
  have n: "length as \<noteq> 0" using assms(1) by simp
  have "0 \<le> of_int (weightSum as) + c"
    using weightSum_bounds [of as] assms(2) by simp
  from roundDouble_nonneg [OF this]
  consider r where "numAdd (Finite (of_int (weightSum as))) (Finite c) = Finite r" "0 \<le> r"
    | "numAdd (Finite (of_int (weightSum as))) (Finite c) = PosInfinity"
    by auto
  then show ?thesis
  proof cases
    case 1
    then have "0 \<le> r / of_nat (length as)" by simp
    from roundDouble_nonneg [OF this]
    consider q where "numDivide (Finite r) (length as) = Finite q" "0 \<le> q"
      | "numDivide (Finite r) (length as) = PosInfinity"
      using n by auto
    then show ?thesis
    proof cases
      case 1
      have "(0::rat) \<le> of_int \<lfloor>q + 1/2\<rfloor>"
        using \<open>0 \<le> q\<close> by simp
      with 1 \<open>numAdd (Finite (of_int (weightSum as))) (Finite c) = Finite r\<close>
      show ?thesis
        by (simp add: pooledRiskScore_def)
    next
      case 2
      with \<open>numAdd (Finite (of_int (weightSum as))) (Finite c) = Finite r\<close>
      show ?thesis by (simp add: pooledRiskScore_def)
    qed
  next
    case 2
    then show ?thesis by (simp add: pooledRiskScore_def)
  qed
qed

text \<open>
  C1, as the claim states it: the score is the rounded sum of the mean weight and the
  compatibility score, clamped. For two analyses of risk level VERY\_LOW and a
  compatibility score of 10 the claim gives round(1 + 10) = 11 and the level LOW; the code
  divides the compatibility score as well and returns round(12 / 2) = 6 and VERY\_LOW.
\<close>

theorem calculateRiskScore_mean_counterexample:
  "map riskLevel bareAnalyses = [VERY_LOW, VERY_LOW]
   \<and> calculateRiskScore bareAnalyses (exampleReport (Finite 10)) = Finite 6
   \<and> specRiskScore bareAnalyses 10 = 11
   \<and> determineOverallRisk (calculateRiskScore bareAnalyses (exampleReport (Finite 10))) = VERY_LOW
   \<and> projectRiskLevel (specRiskScore bareAnalyses 10) = LOW"
proof -
  have levels: "map riskLevel bareAnalyses = [VERY_LOW, VERY_LOW]"
    by code_simp
  have code: "calculateRiskScore bareAnalyses (exampleReport (Finite 10)) = Finite 6"
    by code_simp
  have spec: "specRiskScore bareAnalyses 10 = 11"
    by code_simp
  have "determineOverallRisk (Finite 6) = VERY_LOW" "projectRiskLevel 11 = LOW"
    by (simp_all add: determineOverallRisk_def projectRiskLevel_def)
  with levels code spec show ?thesis by simp
qed

text \<open>
  C1, amended: for a list of analyses (of fewer than \<open>2\<^sup>3\<^sup>2\<close> elements, as every array
  is) and any compatibility report, the risk score is round((sum of the per-analysis
  risk weights + the compatibility risk score) / number of analyses), capped at 100,
  where the weights are CRITICAL 20, VERY\_HIGH 15, HIGH 10, MEDIUM 5, LOW 2 and
  VERY\_LOW 1, their sum is exact, and the addition of the compatibility score and the
  division are operations on numbers, each rounded to the nearest one. The compatibility
  score is thus divided by the number of analyses together with the weights, and there is
  no lower clamp, a score being between 0 and 100 whenever the list is not empty and the
  compatibility score is finite and at least 0. The overall risk is derived from a finite
  score by the project-level breakpoints (at least 80 CRITICAL, 60 VERY\_HIGH, 40 HIGH,
  20 MEDIUM, 10 LOW, else VERY\_LOW), and the report carries both.
\<close>

theorem calculateRiskScore_pooled_score:
  assumes "length as < 2 ^ 32"
  shows "calculateRiskScore as report = pooledRiskScore as (summary_riskScore report)
         \<and> (\<forall>s. calculateRiskScore as report = Finite s \<longrightarrow>
                s \<le> 100 \<and>
                determineOverallRisk (calculateRiskScore as report) = projectRiskLevel s)
         \<and> (as \<noteq> [] \<and> (\<exists>c. summary_riskScore report = Finite c \<and> 0 \<le> c) \<longrightarrow>
              (\<exists>s. calculateRiskScore as report = Finite s \<and> 0 \<le> s \<and> s \<le> 100))
         \<and> (compatibility pkgs (fulfilled (map detect pkgs)) = Inr report
              \<and> as = fulfilled (map detect pkgs)
              \<longrightarrow> (\<exists>level. assessProjectLegalRisk detect compatibility pkgs =
                      Inr \<lparr>overallRisk = level,
                           riskScore = pooledRiskScore as (summary_riskScore report)\<rparr>
                    \<and> (\<forall>s. pooledRiskScore as (summary_riskScore report) = Finite s \<longrightarrow>
                           level = projectRiskLevel s)))"
proof -
  have score: "calculateRiskScore as report = pooledRiskScore as (summary_riskScore report)"
    using assms by (rule calculateRiskScore_pooled)
  have level: "s \<le> 100 \<and> determineOverallRisk (calculateRiskScore as report) = projectRiskLevel s"
    if "calculateRiskScore as report = Finite s" for s
  proof -
    from that score have "Math_min (Math_round
          (numDivide (numAdd (Finite (of_int (weightSum as))) (summary_riskScore report))
             (length as))) 100 = Finite s"
      by (simp add: pooledRiskScore_def)
    then have "s \<le> 100" by (rule Math_min_le)
    with that show ?thesis by (simp add: determineOverallRisk_Finite)
  qed
  have bounds: "\<exists>s. calculateRiskScore as report = Finite s \<and> 0 \<le> s \<and> s \<le> 100"
    if "as \<noteq> [] \<and> (\<exists>c. summary_riskScore report = Finite c \<and> 0 \<le> c)"
    using that pooledRiskScore_nonneg [of as] score by auto
  have assembled: "\<exists>level. assessProjectLegalRisk detect compatibility pkgs =
                      Inr \<lparr>overallRisk = level,
                           riskScore = pooledRiskScore as (summary_riskScore report)\<rparr>
                    \<and> (\<forall>s. pooledRiskScore as (summary_riskScore report) = Finite s \<longrightarrow>
                           level = projectRiskLevel s)"
    if "compatibility pkgs (fulfilled (map detect pkgs)) = Inr report
          \<and> as = fulfilled (map detect pkgs)"
    using that score
    by (auto simp: assessProjectLegalRisk_def analyzeLicenses_fulfilled Let_def
          determineOverallRisk_Finite)
  from score level bounds assembled show ?thesis by blast
qed

text \<open>
  One analysis of each risk level with the compatibility score 10: the weights sum to 53,
  the score is round(63 / 6) = round(10.5) = 11 and the overall risk LOW. One analysis of
  level VERY\_LOW with the compatibility score just below one half, the number
  \<open>1/2 - 2\<^sup>-\<^sup>5\<^sup>4\<close>: the addition gives the number 1.5, and the score is 2.
\<close>

theorem calculateRiskScore_pooled_score_witness:
  "length levelAnalyses < 2 ^ 32
   \<and> weightSum levelAnalyses = 53
   \<and> calculateRiskScore levelAnalyses (exampleReport (Finite 10)) = Finite 11
   \<and> determineOverallRisk (calculateRiskScore levelAnalyses (exampleReport (Finite 10))) = LOW
   \<and> calculateRiskScore (take 1 bareAnalyses) (exampleReport (Finite (1/2 - 1/2^54))) = Finite 2
   \<and> assessProjectLegalRisk exampleDetect (\<lambda>pkgs analyses. Inr (exampleReport (Finite 10)))
        [bareDirectory, bareDirectory] =
      Inr \<lparr>overallRisk = VERY_LOW, riskScore = Finite 6\<rparr>"
proof -
  have len: "length levelAnalyses < 2 ^ 32"
    by (simp add: levelAnalyses_def)
  have len1: "length (take 1 bareAnalyses) < 2 ^ 32"
    by simp
  have len2: "length bareAnalyses < 2 ^ 32"
    by (simp add: bareAnalyses_def fulfilled_def split: sum.splits)
  have sum: "weightSum levelAnalyses = 53"
    by code_simp
  have eleven: "pooledRiskScore levelAnalyses (Finite 10) = Finite 11"
    by code_simp
  have two: "pooledRiskScore (take 1 bareAnalyses) (Finite (1/2 - 1/2^54)) = Finite 2"
    by code_simp
  have six: "pooledRiskScore bareAnalyses (Finite 10) = Finite 6"
    by code_simp
  have lvl: "projectRiskLevel 11 = LOW" "projectRiskLevel 6 = VERY_LOW"
    by (simp_all add: projectRiskLevel_def)
  have rep: "summary_riskScore (exampleReport x) = x" for x
    by (simp add: exampleReport_def)
  from calculateRiskScore_pooled_score [OF len, of "exampleReport (Finite 10)"] eleven lvl rep
  have a: "calculateRiskScore levelAnalyses (exampleReport (Finite 10)) = Finite 11"
    "determineOverallRisk (calculateRiskScore levelAnalyses (exampleReport (Finite 10))) = LOW"
    by auto
  from calculateRiskScore_pooled_score [OF len1, of "exampleReport (Finite (1/2 - 1/2^54))"]
       two rep
  have b: "calculateRiskScore (take 1 bareAnalyses) (exampleReport (Finite (1/2 - 1/2^54))) =
             Finite 2"
    by auto
  from calculateRiskScore_pooled_score [OF len2, of "exampleReport (Finite 10)"
         "\<lambda>pkgs analyses. Inr (exampleReport (Finite 10))" "[bareDirectory, bareDirectory]"
         exampleDetect] six lvl rep
  have c: "assessProjectLegalRisk exampleDetect
             (\<lambda>pkgs analyses. Inr (exampleReport (Finite 10)))
             [bareDirectory, bareDirectory] =
           Inr \<lparr>overallRisk = VERY_LOW, riskScore = Finite 6\<rparr>"
    by (auto simp: bareAnalyses_def)
  from len sum a b c show ?thesis by blast
qed

section \<open>Primary license\<close>

lemma orZero_id: "orZero x = x"
  by (simp add: orZero_def)

text \<open>The first element of the sorted array is one of the highest confidence.\<close>

lemma sortByConfidence_first:
  assumes "xs \<noteq> []"
  shows "sortByConfidence xs ! 0 \<in> set xs"
    and "\<forall>l \<in> set xs. confidence l \<le> confidence (sortByConfidence xs ! 0)"
proof -
  let ?f = "\<lambda>l. - confidence l"
  let ?ys = "sort_key ?f xs"
  have ys: "sortByConfidence xs = ?ys"
    by (simp add: sortByConfidence_def orZero_id)
  have ne: "?ys \<noteq> []"
    using assms by (metis length_sort length_0_conv)
  then obtain y rest where split: "?ys = y # rest"
    by (cases ?ys) auto
  have "set ?ys = set xs" by simp
  with split have mem: "y \<in> set xs" and rest: "set rest \<subseteq> set xs"
    by (metis list.set_intros(1), metis list.set_intros(2) subsetI)
  have "sorted (map ?f ?ys)" by (rule sorted_sort_key)
  with split have "\<forall>z \<in> set rest. ?f y \<le> ?f z"
    by simp
  moreover have "set xs = insert y (set rest)"
    using \<open>set ?ys = set xs\<close> split by (metis list.simps(15))
  ultimately have "\<forall>l \<in> set xs. confidence l \<le> confidence y"
    by auto
  with mem split ys show "sortByConfidence xs ! 0 \<in> set xs"
    and "\<forall>l \<in> set xs. confidence l \<le> confidence (sortByConfidence xs ! 0)"
    by simp_all
qed

lemma set_sortByConfidence: "set (sortByConfidence xs) = set xs"
  by (simp add: sortByConfidence_def)

text \<open>The in-place sort reorders the array and does nothing else to it.\<close>

lemma determinePrimaryLicense_set:
  "set (snd (determinePrimaryLicense lics declaredLicense)) = set lics"
  by (simp add: determinePrimaryLicense_def Let_def set_sortByConfidence split: option.splits)

text \<open>
  C5: for a non-empty consolidated list the primary license is a license of the list,
  chosen by the first rule that applies: (a) when the declared license's identifier is
  in the list, the license with that identifier; (b) otherwise, when the list has a
  permissive license, a permissive license of the highest confidence among the permissive
  ones; (c) otherwise a license of the highest confidence of all.
\<close>

theorem determinePrimaryLicense_rules:
  assumes "lics \<noteq> []"
  shows "\<exists>p. fst (determinePrimaryLicense lics declaredLicense) = Some p \<and> p \<in> set lics \<and>
           (if \<exists>d. declaredLicense = Some d \<and> (\<exists>l \<in> set lics. spdxId l = spdxId d)
            then \<exists>d. declaredLicense = Some d \<and> spdxId p = spdxId d
            else if \<exists>l \<in> set lics. category l = PERMISSIVE
            then category p = PERMISSIVE \<and>
                 (\<forall>l \<in> set lics. category l = PERMISSIVE \<longrightarrow> confidence l \<le> confidence p)
            else \<forall>l \<in> set lics. confidence l \<le> confidence p)"
proof (cases "length lics = 1")
  case True
  then obtain x where x: "lics = [x]"
    by (cases lics) auto
  then have "fst (determinePrimaryLicense lics declaredLicense) = Some x"
    by (simp add: determinePrimaryLicense_def)
  with x show ?thesis by auto
next
  case False
  with assms have long: "length lics \<noteq> 0" "length lics \<noteq> 1" by simp_all
  let ?declared = "case declaredLicense of
                     None \<Rightarrow> None
                   | Some d \<Rightarrow> find (\<lambda>l. spdxId l = spdxId d) lics"
  show ?thesis
  proof (cases ?declared)
    case (Some found)
    then obtain d where d: "declaredLicense = Some d"
      and f: "find (\<lambda>l. spdxId l = spdxId d) lics = Some found"
      by (cases declaredLicense) auto
    from f have "found \<in> set lics" "spdxId found = spdxId d"
      by (auto simp: find_Some_iff)
    moreover have "fst (determinePrimaryLicense lics declaredLicense) = Some found"
      using long Some by (simp add: determinePrimaryLicense_def)
    ultimately show ?thesis using d by auto
  next
    case None
    then have nodecl: "\<not> (\<exists>d. declaredLicense = Some d \<and> (\<exists>l \<in> set lics. spdxId l = spdxId d))"
      by (cases declaredLicense) (auto simp: find_None_iff)
    let ?permissive = "filter (\<lambda>l. category l = PERMISSIVE) lics"
    show ?thesis
    proof (cases "?permissive = []")
      case False
      then have ex: "\<exists>l \<in> set lics. category l = PERMISSIVE"
        by (auto simp: filter_empty_conv)
      let ?p = "sortByConfidence ?permissive ! 0"
      have res: "fst (determinePrimaryLicense lics declaredLicense) = Some ?p"
        using long None False by (simp add: determinePrimaryLicense_def Let_def)
      from sortByConfidence_first [OF False]
      have "?p \<in> set ?permissive" "\<forall>l \<in> set ?permissive. confidence l \<le> confidence ?p"
        by simp_all
      then have "?p \<in> set lics" "category ?p = PERMISSIVE"
        "\<forall>l \<in> set lics. category l = PERMISSIVE \<longrightarrow> confidence l \<le> confidence ?p"
        by auto
      with res nodecl ex show ?thesis by auto
    next
      case True
      then have noperm: "\<not> (\<exists>l \<in> set lics. category l = PERMISSIVE)"
        by (auto simp: filter_empty_conv)
      let ?p = "sortByConfidence lics ! 0"
      have res: "fst (determinePrimaryLicense lics declaredLicense) = Some ?p"
        using long None True by (simp add: determinePrimaryLicense_def Let_def)
      from sortByConfidence_first [OF assms]
      have "?p \<in> set lics" "\<forall>l \<in> set lics. confidence l \<le> confidence ?p"
        by simp_all
      with res nodecl noperm show ?thesis by auto
    qed
  qed
qed

text \<open>
  The GPL and the MIT license found in files, with no declared license: rule (b) picks
  the MIT license, the only permissive one.
\<close>

theorem determinePrimaryLicense_rules_witness:
  "[exampleGPL, exampleMIT] \<noteq> []
   \<and> fst (determinePrimaryLicense [exampleGPL, exampleMIT] None) = Some exampleMIT"
proof -
  have ne: "[exampleGPL, exampleMIT] \<noteq> []" by simp
  have cats: "category exampleGPL = COPYLEFT" "category exampleMIT = PERMISSIVE"
    by (simp_all add: exampleGPL_def exampleMIT_def)
  from determinePrimaryLicense_rules [OF ne, of None]
  obtain p where p: "fst (determinePrimaryLicense [exampleGPL, exampleMIT] None) = Some p"
    and mem: "p \<in> set [exampleGPL, exampleMIT]"
    and perm: "category p = PERMISSIVE"
    using cats by auto
  from mem perm cats have "p = exampleMIT" by auto
  with p ne show ?thesis by simp
qed

section \<open>Issues\<close>

lemma fold_push_if:
  "fold (\<lambda>x acc. if c x then acc @ [g x] else acc) xs acc = acc @ map g (filter c xs)"
  by (induction xs arbitrary: acc) simp_all

lemma hasIncompatibleLicenses_iff:
  "length lics > 1 \<Longrightarrow>
   hasIncompatibleLicenses lics =
     (PROPRIETARY \<in> set (map category lics) \<or>
      length (filter (\<lambda>l. category l = COPYLEFT) lics) > 1)"
  by (simp add: hasIncompatibleLicenses_def Let_def filter_map comp_def)

lemma detectIssues_expected:
  "detectIssues pkg lics declaredLicense files = expectedIssues pkg lics declaredLicense"
proof -
  have dep: "(\<lambda>l. case deprecatedIds l of None \<Rightarrow> False | Some ids \<Rightarrow> 0 < length ids) =
             (\<lambda>l. case deprecatedIds l of None \<Rightarrow> False | Some ids \<Rightarrow> ids \<noteq> [])"
    by (rule ext) (simp split: option.splits)
  have conflict: "(length lics > 1 \<and> hasIncompatibleLicenses lics) =
     (length lics > 1 \<and> (PROPRIETARY \<in> set (map category lics) \<or>
                          length (filter (\<lambda>l. category l = COPYLEFT) lics) > 1))"
    using hasIncompatibleLicenses_iff [of lics] by blast
  show ?thesis
    unfolding detectIssues_def expectedIssues_def Let_def fold_push_if dep conflict
    by (cases "pkg_license pkg") simp_all
qed

text \<open>
  C7: the issues of a detection are emitted rule by rule, each rule on its own and all
  that apply: no license gives \<open>missing_license\<close> (error); more than one license with a
  proprietary one among them, or with more than one copyleft license, gives
  \<open>conflicting_licenses\<close> (critical); every license with deprecated identifiers gives a
  \<open>deprecated_license\<close> (warning); a declared expression, present and not empty, that
  resolved to no license of the store gives \<open>unrecognized_license\<close> (warning). This holds
  of \<open>detectIssues\<close> on any input, and of the issues of every analysis that
  \<open>detectLicense\<close> returns, for the licenses of the analysis and the declared license as
  \<open>detectDeclaredLicense\<close> resolved it.
\<close>

theorem detectIssues_all_applicable:
  "detectIssues pkg lics declaredLicense files = expectedIssues pkg lics declaredLicense
   \<and> (detectLicense db fs copyrightMatches clock pkg = Inr a
        \<longrightarrow> (\<exists>resolved. detectDeclaredLicense db pkg = Inr resolved
                \<and> issues a = expectedIssues pkg (licenses a) resolved))"
proof (intro conjI impI)
  show "detectIssues pkg lics declaredLicense files = expectedIssues pkg lics declaredLicense"
    by (rule detectIssues_expected)
next
  assume ok: "detectLicense db fs copyrightMatches clock pkg = Inr a"
  then obtain resolved where r: "detectDeclaredLicense db pkg = Inr resolved"
    by (cases "detectDeclaredLicense db pkg"; cases "clock pkg")
       (auto simp: detectLicense_def)
  obtain t0 t1 t2 where c: "clock pkg = (t0, t1, t2)"
    by (cases "clock pkg") auto
  from ok r c have "issues a = expectedIssues pkg (licenses a) resolved"
    by (auto simp: detectLicense_def Let_def detectIssues_expected split: prod.splits)
  with r show "\<exists>resolved. detectDeclaredLicense db pkg = Inr resolved
                \<and> issues a = expectedIssues pkg (licenses a) resolved"
    by blast
qed

text \<open>
  The package that declares an unknown license beside a GPL and an MIT license file: the
  GPL record has a deprecated identifier, and the declared expression is not recognised.
\<close>

theorem detectIssues_all_applicable_witness:
  "\<exists>a. exampleDetect unknownDeclared = Inr a
       \<and> map spdxId (licenses a) = [''GPL-3.0-only'', ''MIT'']
       \<and> issues a =
           [\<lparr>issue_type = deprecated_license, issue_severity = warning,
             issue_description = ''License GPL-3.0-only has deprecated identifiers''\<rparr>,
            \<lparr>issue_type = unrecognized_license, issue_severity = warning,
             issue_description = ''Unrecognized license identifier: Nonsense-1.0''\<rparr>]"
proof -
  have ok: "\<not> isl (exampleDetect unknownDeclared)"
    by code_simp
  then obtain a where a: "exampleDetect unknownDeclared = Inr a"
    by (cases "exampleDetect unknownDeclared") auto
  then have a': "detectLicense exampleDb exampleFs (\<lambda>content. []) exampleClock unknownDeclared
                   = Inr a"
    by (simp add: exampleDetect_def)
  have ids: "map spdxId (licenses (projr (exampleDetect unknownDeclared))) =
               [''GPL-3.0-only'', ''MIT'']"
    by code_simp
  have none: "detectDeclaredLicense exampleDb unknownDeclared = Inr None"
    by code_simp
  have expected: "expectedIssues unknownDeclared
                    (licenses (projr (exampleDetect unknownDeclared))) None =
           [\<lparr>issue_type = deprecated_license, issue_severity = warning,
             issue_description = ''License GPL-3.0-only has deprecated identifiers''\<rparr>,
            \<lparr>issue_type = unrecognized_license, issue_severity = warning,
             issue_description = ''Unrecognized license identifier: Nonsense-1.0''\<rparr>]"
    by code_simp
  from detectIssues_all_applicable [of unknownDeclared "[]" None "[]" exampleDb exampleFs
         "\<lambda>content. []" exampleClock a] a' none
  have "issues a = expectedIssues unknownDeclared (licenses a) None"
    by auto
  with a ids expected show ?thesis by auto
qed

section \<open>Grouped documents\<close>







lemma map_entry_absent: "k \<notin> fst ` set xs \<Longrightarrow> AList.map_entry k f xs = xs"
  by (induction xs) auto


















lemma detectLicense_fields:
  assumes "detectLicense db fs copyrightMatches clock pkg = Inr a"
  shows "\<exists>resolved. detectDeclaredLicense db pkg = Inr resolved
           \<and> primaryLicense a =
               fst (determinePrimaryLicense
                      (consolidateLicenses resolved (analyzeLicenseFiles db fs pkg)) resolved)
           \<and> licenses a =
               snd (determinePrimaryLicense
                      (consolidateLicenses resolved (analyzeLicenseFiles db fs pkg)) resolved)"
proof -
  obtain t0 t1 t2 where c: "clock pkg = (t0, t1, t2)"
    by (cases "clock pkg") auto
  from assms c obtain resolved where r: "detectDeclaredLicense db pkg = Inr resolved"
    by (cases "detectDeclaredLicense db pkg") (auto simp: detectLicense_def)
  from assms c r show ?thesis
    by (auto simp: detectLicense_def Let_def split: prod.splits)
qed

lemma detectLicense_succeeds:
  "detectDeclaredLicense db pkg = Inr resolved \<Longrightarrow>
   \<exists>a. detectLicense db fs copyrightMatches clock pkg = Inr a"
  by (cases "clock pkg";
      cases "determinePrimaryLicense
               (consolidateLicenses resolved (analyzeLicenseFiles db fs pkg)) resolved")
     (simp add: detectLicense_def Let_def)





text \<open>
  The directory whose \<^verbatim>\<open>LICENSE\<close> file is the GPL and whose \<^verbatim>\<open>COPYING\<close> file is the MIT
  license, with no declared license: the primary license is the MIT license, the second
  of the list, and the key of the group is the identifier of the first.
\<close>

lemma groupAnalysesByLicense_later_primary:
  "map primaryIsFirst dualAnalyses = [False]
   \<and> map primaryLicenseKey dualAnalyses = [''MIT'']
   \<and> map fst (groupAnalysesByLicense dualAnalyses) = [''GPL-3.0-only'']"
proof -
  have "map primaryIsFirst dualAnalyses = [False]"
    by code_simp
  moreover have "map primaryLicenseKey dualAnalyses = [''MIT'']"
    by code_simp
  moreover have "map fst (groupAnalysesByLicense dualAnalyses) = [''GPL-3.0-only'']"
    by code_simp
  ultimately show ?thesis by blast
qed




section \<open>The declared license and the store\<close>

lemma analyzeLicenseTextLoop_confidence:
  "analyzeLicenseTextLoop db content pats = Inr (Some found) \<Longrightarrow>
   \<exists>p \<in> set pats. snd found = snd (snd p)"
  by (induction db content pats rule: analyzeLicenseTextLoop.induct)
     (auto split: if_splits sum.splits option.splits)

lemma LICENSE_TEXT_PATTERNS_confidence:
  "\<forall>p \<in> set LICENSE_TEXT_PATTERNS. snd (snd p) \<le> 9/10"
  by (simp add: LICENSE_TEXT_PATTERNS_def)

lemma analyzeLicenseText_confidence:
  "analyzeLicenseText db content = Inr (Some found) \<Longrightarrow> snd found \<le> 9/10"
  using analyzeLicenseTextLoop_confidence LICENSE_TEXT_PATTERNS_confidence
  by (fastforce simp: analyzeLicenseText_def Let_def)

lemma fold_invariant:
  "P acc \<Longrightarrow> (\<And>x acc. P acc \<Longrightarrow> P (step x acc)) \<Longrightarrow> P (fold step xs acc)"
  by (induction xs arbitrary: acc) simp_all

text \<open>No license file is more confident than 0.9.\<close>

lemma analyzeLicenseFiles_confidence:
  "\<forall>f \<in> set (analyzeLicenseFiles db fs pkg). file_confidence f \<le> 9/10"
proof (cases "truthy (pkg_path pkg)")
  case False
  then show ?thesis by (simp add: analyzeLicenseFiles_def)
next
  case True
  have "\<forall>f \<in> set (fold (\<lambda>pat licenseFiles.
                case fs (the (pkg_path pkg)) pat of
                  None \<Rightarrow> licenseFiles
                | Some content \<Rightarrow>
                    (case analyzeLicenseText db content of
                       Inr (Some detectedLicense) \<Rightarrow>
                         licenseFiles @
                           [\<lparr>path = pat, file_license = fst detectedLicense,
                             file_confidence = snd detectedLicense\<rparr>]
                     | Inr None \<Rightarrow> licenseFiles
                     | Inl e \<Rightarrow> licenseFiles))
          LICENSE_FILE_PATTERNS []). file_confidence f \<le> 9/10"
    by (rule fold_invariant)
       (auto split: option.splits sum.splits dest: analyzeLicenseText_confidence)
  with True show ?thesis by (simp add: analyzeLicenseFiles_def)
qed

text \<open>
  A declared license of confidence 1 keeps its entry in the map of
  \<open>consolidateLicenses\<close>: a file replaces an entry only when it is more confident.
\<close>

lemma consolidateLicenses_keeps_declared:
  assumes conf: "confidence d = 1"
    and files: "\<forall>f \<in> set files. file_confidence f \<le> 1"
  shows "d \<in> set (consolidateLicenses (Some d) files)"
proof -
  let ?step = "\<lambda>fileInfo licenseMap.
                 case map_of licenseMap (spdxId (file_license fileInfo)) of
                   None \<Rightarrow>
                     AList.update (spdxId (file_license fileInfo)) (file_license fileInfo)
                       licenseMap
                 | Some existing \<Rightarrow>
                     if file_confidence fileInfo > orZero (confidence existing)
                     then AList.update (spdxId (file_license fileInfo))
                            (file_license fileInfo) licenseMap
                     else licenseMap"
  have inv: "map_of (fold ?step fs m) (spdxId d) = Some d"
    if "map_of m (spdxId d) = Some d" "\<forall>f \<in> set fs. file_confidence f \<le> 1" for fs m
    using that
  proof (induction fs arbitrary: m)
    case Nil
    then show ?case by simp
  next
    case (Cons f fs)
    have "map_of (?step f m) (spdxId d) = Some d"
    proof (cases "spdxId (file_license f) = spdxId d")
      case True
      from Cons.prems(2) have "\<not> file_confidence f > orZero (confidence d)"
        by (simp add: conf orZero_def)
      with True Cons.prems(1) show ?thesis by simp
    next
      case False
      with Cons.prems(1) show ?thesis
        by (simp add: update_conv' split: option.splits)
    qed
    with Cons.IH [of "?step f m"] Cons.prems(2) show ?case by simp
  qed
  have "map_of (fold ?step files (AList.update (spdxId d) d [])) (spdxId d) = Some d"
    using files by (intro inv) simp_all
  then have "(spdxId d, d) \<in> set (fold ?step files (AList.update (spdxId d) d []))"
    by (rule map_of_SomeD)
  then have "d \<in> snd ` set (fold ?step files (AList.update (spdxId d) d []))"
    by force
  then show ?thesis
    by (simp add: consolidateLicenses_def Let_def)
qed

text \<open>
  The detection on the heap only adds objects, and read through the heap it returns what
  the detection on records returns.
\<close>

lemma firstResolvableRef_frame:
  "firstResolvableRef store h parts = Inr (res, h') \<Longrightarrow> take (length h) h' = h"
  by (induction parts) (auto simp: alloc_def split: sum.splits option.splits)

lemma detectDeclaredLicenseRef_frame:
  "detectDeclaredLicenseRef store h pkg = Inr (res, h') \<Longrightarrow> take (length h) h' = h"
  by (auto simp: detectDeclaredLicenseRef_def Let_def alloc_def
           split: option.splits if_splits sum.splits dest: firstResolvableRef_frame)

lemma firstResolvableRef_refines:
  "map_sum id (\<lambda>(res, h'). map_option (\<lambda>r. h' ! r) res) (firstResolvableRef store h parts) =
   firstResolvable (heapDb store h) parts"
  by (induction parts) (auto simp: alloc_def heapDb_def split: sum.splits option.splits)

lemma detectDeclaredLicenseRef_refines:
  "map_sum id (\<lambda>(res, h'). map_option (\<lambda>r. h' ! r) res) (detectDeclaredLicenseRef store h pkg) =
   detectDeclaredLicense (heapDb store h) pkg"
proof (cases "pkg_license pkg")
  case None
  then show ?thesis
    by (simp add: detectDeclaredLicenseRef_def detectDeclaredLicense_def)
next
  case (Some declaredText)
  show ?thesis
  proof (cases "store (trim declaredText)")
    case (Inl e)
    with Some show ?thesis
      by (simp add: detectDeclaredLicenseRef_def detectDeclaredLicense_def Let_def heapDb_def)
  next
    case (Inr found)
    show ?thesis
    proof (cases found)
      case None
      with Some Inr show ?thesis
        by (simp add: detectDeclaredLicenseRef_def detectDeclaredLicense_def Let_def
              firstResolvableRef_refines)
           (simp add: heapDb_def)
    next
      case (Some r)
      with \<open>pkg_license pkg = Some declaredText\<close> Inr show ?thesis
        by (simp add: detectDeclaredLicenseRef_def detectDeclaredLicense_def Let_def
              heapDb_def alloc_def)
    qed
  qed
qed

lemma heapDb_extend:
  "storeOnHeap store h \<Longrightarrow> heapDb store (h @ ext) = heapDb store h"
  by (rule ext)
     (auto simp: heapDb_def storeOnHeap_def nth_append split: sum.splits option.splits)

text \<open>
  C8: when the declared expression of a package, trimmed, is an identifier of the store,
  the detection attaches confidence 1.0 to a new object, a copy of the store's record:
  the heap is extended by that object and every object that was on it, the store's record
  with its own confidence among them, is as it was, so the store answers as before. The
  license with confidence 1.0 is in the consolidated set, whatever the license files of
  the package are, and in the licenses of the analysis that \<open>detectLicense\<close> returns. The
  heap only grows for every other package as well.
\<close>

theorem declared_exact_match_confidence:
  assumes onHeap: "storeOnHeap store h"
    and declared: "pkg_license pkg = Some expression" "expression \<noteq> []"
    and known: "store (trim expression) = Inr (Some r)"
  shows "\<exists>r' h'. detectDeclaredLicenseRef store h pkg = Inr (Some r', h')
           \<and> h' ! r' = (h ! r)\<lparr>confidence := 1\<rparr>
           \<and> length h \<le> r'
           \<and> take (length h) h' = h
           \<and> h' ! r = h ! r
           \<and> heapDb store h' = heapDb store h
           \<and> detectDeclaredLicense (heapDb store h) pkg = Inr (Some (h' ! r'))
           \<and> h' ! r' \<in> set (consolidateLicenses (Some (h' ! r'))
                                (analyzeLicenseFiles (heapDb store h) fs pkg))
           \<and> (\<exists>a. detectLicense (heapDb store h) fs copyrightMatches clock pkg = Inr a
                  \<and> h' ! r' \<in> set (licenses a))
           \<and> confidence (h' ! r') = 1
           \<and> (\<forall>other res h''. detectDeclaredLicenseRef store h other = Inr (res, h'')
                  \<longrightarrow> take (length h) h'' = h)"
proof -
  let ?copy = "(h ! r)\<lparr>confidence := 1\<rparr>"
  let ?h' = "h @ [?copy]"
  let ?files = "analyzeLicenseFiles (heapDb store h) fs pkg"
  from onHeap known have r: "r < length h"
    by (auto simp: storeOnHeap_def)
  have run: "detectDeclaredLicenseRef store h pkg = Inr (Some (length h), ?h')"
    using declared known by (simp add: detectDeclaredLicenseRef_def Let_def alloc_def)
  have new: "?h' ! length h = ?copy" by simp
  have old: "?h' ! r = h ! r" using r by (simp add: nth_append)
  have db: "heapDb store ?h' = heapDb store h"
    using onHeap by (rule heapDb_extend)
  have val: "detectDeclaredLicense (heapDb store h) pkg = Inr (Some ?copy)"
    using declared known by (simp add: detectDeclaredLicense_def Let_def heapDb_def)
  have "\<forall>f \<in> set ?files. file_confidence f \<le> 1"
    using analyzeLicenseFiles_confidence [of "heapDb store h" fs pkg] by fastforce
  then have cons: "?copy \<in> set (consolidateLicenses (Some ?copy) ?files)"
    by (intro consolidateLicenses_keeps_declared) simp_all
  obtain a where a: "detectLicense (heapDb store h) fs copyrightMatches clock pkg = Inr a"
    using detectLicense_succeeds [OF val] by blast
  from detectLicense_fields [OF a] val
  have "licenses a = snd (determinePrimaryLicense (consolidateLicenses (Some ?copy) ?files)
                            (Some ?copy))"
    by simp
  with cons have inA: "?copy \<in> set (licenses a)"
    by (simp add: determinePrimaryLicense_set)
  have frame: "\<forall>other res h''. detectDeclaredLicenseRef store h other = Inr (res, h'')
                  \<longrightarrow> take (length h) h'' = h"
    using detectDeclaredLicenseRef_frame by blast
  from run new old db val cons a inA frame show ?thesis
    by (intro exI [of _ "length h"] exI [of _ ?h']) auto
qed

text \<open>
  The package that declares \<open>MIT\<close> (between spaces) beside the two license files. The
  store's record of the MIT license has confidence 0.5 before and after the detection;
  the new object at address 2 has confidence 1, and it is the MIT license of the
  analysis, where the file's MIT license of confidence 0.9 did not replace it.
\<close>

theorem declared_exact_match_confidence_witness:
  "storeOnHeap exampleStore exampleHeap
   \<and> pkg_license mitPackage = Some '' MIT '' \<and> exampleStore (trim '' MIT '') = Inr (Some 0)
   \<and> detectDeclaredLicenseRef exampleStore exampleHeap mitPackage =
       Inr (Some 2, [exampleMIT, exampleGPL, exampleMIT\<lparr>confidence := 1\<rparr>])
   \<and> confidence (exampleHeap ! 0) = 1/2
   \<and> (\<exists>a. detectLicense (heapDb exampleStore exampleHeap) exampleFs (\<lambda>content. [])
              exampleClock mitPackage = Inr a
          \<and> exampleMIT\<lparr>confidence := 1\<rparr> \<in> set (licenses a))"
proof -
  have onHeap: "storeOnHeap exampleStore exampleHeap"
    by (auto simp: storeOnHeap_def exampleStore_def exampleHeap_def split: if_splits)
  have declared: "pkg_license mitPackage = Some '' MIT ''" "'' MIT '' \<noteq> []"
    by (simp_all add: mitPackage_def examplePackage_def)
  have known: "exampleStore (trim '' MIT '') = Inr (Some 0)"
    by code_simp
  have heap0: "exampleHeap ! 0 = exampleMIT" "length exampleHeap = 2"
    by (simp_all add: exampleHeap_def)
  have conf: "confidence (exampleHeap ! 0) = 1/2"
    by (simp add: heap0 exampleMIT_def)
  from declared_exact_match_confidence [OF onHeap declared known,
         of exampleFs "\<lambda>content. []" exampleClock]
  obtain r' h' a where
    run: "detectDeclaredLicenseRef exampleStore exampleHeap mitPackage = Inr (Some r', h')"
    and new: "h' ! r' = (exampleHeap ! 0)\<lparr>confidence := 1\<rparr>"
    and a: "detectLicense (heapDb exampleStore exampleHeap) exampleFs (\<lambda>content. [])
              exampleClock mitPackage = Inr a"
    and inA: "h' ! r' \<in> set (licenses a)"
    by blast
  have "detectDeclaredLicenseRef exampleStore exampleHeap mitPackage =
       Inr (Some 2, [exampleMIT, exampleGPL, exampleMIT\<lparr>confidence := 1\<rparr>])"
    using declared known
    by (simp add: detectDeclaredLicenseRef_def Let_def alloc_def exampleHeap_def)
  with onHeap declared known conf a inA new heap0 show ?thesis
    by auto
qed

end
